theory Spec2Isabelle
  imports Main
begin

section \<open>AmbedkarGPT: the RAG service and its lifecycle\<close>

text \<open>
  A shallow embedding of \<^verbatim>\<open>backend/rag_service.py\<close> (class \<^verbatim>\<open>RAGService\<close>), of the
  question endpoints of \<^verbatim>\<open>backend/server.py\<close> and of \<^verbatim>\<open>AmbedkarQA.ask\<close> of
  \<^verbatim>\<open>backend/ambedkar_qa_cli.py\<close>.

  The service orchestrates third-party components (the text loader, the text splitter, the
  embedding model, the Chroma vector store, the Ollama language model). They are not code
  of the repository; they enter the model as a record of capabilities. Every capability
  that touches the outside (files, the model server, the index directory) takes the state
  of the outside world \<open>'w\<close> and returns the new one, and every capability can raise: its
  result is \<open>error + value\<close>. The calls of \<^verbatim>\<open>logger\<close> are kept: the log is a list of
  entries, threaded like the world.
\<close>

subsection \<open>Data\<close>

text \<open>
  Exceptions, by class, with their message. \<open>RuntimeError\<close> stands for the class and its
  subclasses (the ask endpoint catches it apart); \<open>ExternalError\<close> is any other exception
  a library raises.
\<close>

datatype error =
    FileNotFoundError string
  | RuntimeError string
  | AttributeError string
  | KeyError string
  | ExternalError string

text \<open>\<^verbatim>\<open>str(e)\<close>: the message of the exception.\<close>

fun str :: "error \<Rightarrow> string" where
  "str (FileNotFoundError m) = m"
| "str (RuntimeError m) = m"
| "str (AttributeError m) = m"
| "str (KeyError m) = m"
| "str (ExternalError m) = m"

datatype log_entry = Info string | Error string

datatype document = Document (page_content: string) (metadata: "(string \<times> string) list")

text \<open>
  The prompt template, as \<^verbatim>\<open>ChatPromptTemplate.from_template\<close> holds it: literal text
  and named placeholders.
\<close>

datatype segment = Lit string | Var string

type_synonym prompt_template = "segment list"

record 'v vs_retriever =
  store :: 'v
  search_k :: nat

text \<open>
  The chain \<^verbatim>\<open>{"context": retriever | format_docs, "question": RunnablePassthrough()}
  | prompt | llm | StrOutputParser()\<close>: the objects it was composed from.
\<close>

record ('v, 'l) chain =
  chain_retriever :: "'v vs_retriever"
  chain_prompt :: prompt_template
  chain_llm :: 'l

text \<open>
  The attributes of a \<^verbatim>\<open>RAGService\<close> object. An attribute that is \<^verbatim>\<open>None\<close> or not yet
  set is \<open>None\<close>.
\<close>

record ('e, 'v, 'l) rag_service =
  initialized :: bool
  vectorstore :: "'v option"
  qa_chain :: "('v, 'l) chain option"
  embeddings :: "'e option"
  llm :: "'l option"
  retriever :: "'v vs_retriever option"
  prompt :: "prompt_template option"

record init_result =
  status :: string
  message :: string
  chunks_count :: "nat option"

record source_entry =
  content :: string
  source_metadata :: "(string \<times> string) list"

record question_response =
  question :: string
  answer :: string
  sources :: "source_entry list"
  sources_count :: nat

record service_status =
  status_initialized :: bool
  speech_file_exists :: bool
  vector_db_exists :: bool

subsection \<open>The external capabilities\<close>

record ('w, 'e, 'v, 'l) capabilities =
  ROOT_DIR :: string
  path_exists :: "string \<Rightarrow> 'w \<Rightarrow> bool"
  TextLoader_load :: "string \<Rightarrow> 'w \<Rightarrow> (error + document list) \<times> 'w"
  split_documents :: "nat \<Rightarrow> nat \<Rightarrow> string \<Rightarrow> document list \<Rightarrow> error + document list"
  HuggingFaceEmbeddings :: "string \<Rightarrow> 'w \<Rightarrow> (error + 'e) \<times> 'w"
  Chroma :: "string \<Rightarrow> 'e \<Rightarrow> 'w \<Rightarrow> (error + 'v) \<times> 'w"
  Chroma_from_documents :: "document list \<Rightarrow> 'e \<Rightarrow> string \<Rightarrow> 'w \<Rightarrow> (error + 'v) \<times> 'w"
  OllamaLLM :: "string \<Rightarrow> string \<Rightarrow> string \<Rightarrow> 'w \<Rightarrow> (error + 'l) \<times> 'w"
  retriever_invoke :: "'v vs_retriever \<Rightarrow> string \<Rightarrow> 'w \<Rightarrow> (error + document list) \<times> 'w"
  llm_invoke :: "'l \<Rightarrow> string \<Rightarrow> 'w \<Rightarrow> (error + string) \<times> 'w"

definition SPEECH_FILE :: "('w, 'e, 'v, 'l) capabilities \<Rightarrow> string" where
  "SPEECH_FILE caps = ROOT_DIR caps @ ''/speech.txt''"

definition CHROMA_DB_DIR :: "('w, 'e, 'v, 'l) capabilities \<Rightarrow> string" where
  "CHROMA_DB_DIR caps = ROOT_DIR caps @ ''/chroma_db''"

subsection \<open>The prompt\<close>

definition newline :: char where
  "newline = CHR 0x0A"

definition backslash :: char where
  "backslash = CHR 0x5C"

definition template :: prompt_template where
  "template =
     [Lit (''Answer the question based on the following context from Dr. B.R. Ambedkar''
           @ [CHR 0x27] @ ''s speech:'' @ [newline, newline] @ ''Context: ''),
      Var ''context'',
      Lit ([newline, newline] @ ''Question: ''),
      Var ''question'',
      Lit ([newline, newline] @ ''Answer: '')]"

text \<open>
  Formatting the prompt substitutes each placeholder from the input dictionary; a missing
  key raises. The language model receives the formatted text.
\<close>

fun format_prompt :: "prompt_template \<Rightarrow> (string \<times> string) list \<Rightarrow> error + string" where
  "format_prompt [] d = Inr []"
| "format_prompt (Lit t # ps) d =
     (case format_prompt ps d of Inl e \<Rightarrow> Inl e | Inr r \<Rightarrow> Inr (t @ r))"
| "format_prompt (Var v # ps) d =
     (case map_of d v of
        None \<Rightarrow> Inl (KeyError v)
      | Some x \<Rightarrow> (case format_prompt ps d of Inl e \<Rightarrow> Inl e | Inr r \<Rightarrow> Inr (x @ r)))"

text \<open>The text the template formats to, for a context and a question.\<close>

definition rendered_prompt :: "string \<Rightarrow> string \<Rightarrow> string" where
  "rendered_prompt ctx q =
     ''Answer the question based on the following context from Dr. B.R. Ambedkar''
     @ [CHR 0x27] @ ''s speech:'' @ [newline, newline] @ ''Context: '' @ ctx
     @ [newline, newline] @ ''Question: '' @ q @ [newline, newline] @ ''Answer: ''"

text \<open>\<^verbatim>\<open>sep.join(xs)\<close>\<close>

fun join :: "string \<Rightarrow> string list \<Rightarrow> string" where
  "join sep [] = []"
| "join sep [x] = x"
| "join sep (x # y # ys) = x @ sep @ join sep (y # ys)"

text \<open>
  \<^verbatim>\<open>def format_docs(docs): return "\\n\\n".join(doc.page_content for doc in docs)\<close>.
  The separator of the source is the literal \<^verbatim>\<open>"\\n\\n"\<close>: in Python that is the four
  characters backslash, n, backslash, n.
\<close>

definition format_docs_separator :: string where
  "format_docs_separator = [backslash, CHR ''n'', backslash, CHR ''n'']"

definition format_docs :: "document list \<Rightarrow> string" where
  "format_docs docs = join format_docs_separator (map page_content docs)"

subsection \<open>The QA chain\<close>

text \<open>
  \<^verbatim>\<open>qa_chain.invoke(question)\<close>: the first stage runs the retriever on the question and
  formats its documents as \<^verbatim>\<open>context\<close>, and passes the question through as
  \<^verbatim>\<open>question\<close>; then the prompt, the language model and \<^verbatim>\<open>StrOutputParser\<close> (the
  identity on the model's string).
\<close>

definition qa_chain_invoke ::
  "('w, 'e, 'v, 'l) capabilities \<Rightarrow> ('v, 'l) chain \<Rightarrow> string \<Rightarrow> 'w \<Rightarrow> (error + string) \<times> 'w" where
  "qa_chain_invoke caps ch q w =
     (case retriever_invoke caps (chain_retriever ch) q w of
        (Inl e, w1) \<Rightarrow> (Inl e, w1)
      | (Inr docs, w1) \<Rightarrow>
          (case format_prompt (chain_prompt ch)
                  [(''context'', format_docs docs), (''question'', q)] of
             Inl e \<Rightarrow> (Inl e, w1)
           | Inr p \<Rightarrow> llm_invoke caps (chain_llm ch) p w1))"

subsection \<open>\<^verbatim>\<open>RAGService.initialize\<close>\<close>

definition already_initialized :: init_result where
  "already_initialized =
     \<lparr>status = ''already_initialized'', message = ''RAG service already initialized'',
      chunks_count = None\<rparr>"

text \<open>The body of the \<^verbatim>\<open>try\<close> block of \<^verbatim>\<open>initialize\<close>, statement by statement.\<close>

definition initialize_try ::
  "('w, 'e, 'v, 'l) capabilities \<Rightarrow> ('e, 'v, 'l) rag_service \<Rightarrow> 'w \<Rightarrow> log_entry list \<Rightarrow>
   (error + init_result) \<times> ('e, 'v, 'l) rag_service \<times> 'w \<times> log_entry list" where
  "initialize_try caps self w lg =
    (let lg1 = lg @ [Info ''Initializing RAG service...''] in
     if \<not> path_exists caps (SPEECH_FILE caps) w
     then (Inl (FileNotFoundError (''Speech file not found at '' @ SPEECH_FILE caps)),
           self, w, lg1)
     else
     let lg2 = lg1 @ [Info (''Loading speech from '' @ SPEECH_FILE caps)] in
     (case TextLoader_load caps (SPEECH_FILE caps) w of
       (Inl e, w1) \<Rightarrow> (Inl e, self, w1, lg2)
     | (Inr documents, w1) \<Rightarrow>
     let lg3 = lg2 @ [Info ''Splitting text into chunks''] in
     (case split_documents caps 200 50 ''. '' documents of
       Inl e \<Rightarrow> (Inl e, self, w1, lg3)
     | Inr texts \<Rightarrow>
     let lg4 = lg3 @ [Info ''Loading HuggingFace embeddings''] in
     (case HuggingFaceEmbeddings caps ''sentence-transformers/all-MiniLM-L6-v2'' w1 of
       (Inl e, w2) \<Rightarrow> (Inl e, self, w2, lg4)
     | (Inr emb, w2) \<Rightarrow>
     let self1 = self\<lparr>embeddings := Some emb\<rparr>;
         lg5 = lg4 @ [Info ''Setting up ChromaDB vector store''] in
     (case (if path_exists caps (CHROMA_DB_DIR caps) w2
            then Chroma caps (CHROMA_DB_DIR caps) emb w2
            else Chroma_from_documents caps texts emb (CHROMA_DB_DIR caps) w2) of
       (Inl e, w3) \<Rightarrow> (Inl e, self1, w3, lg5)
     | (Inr vs, w3) \<Rightarrow>
     let self2 = self1\<lparr>vectorstore := Some vs\<rparr>;
         lg6 = lg5 @ [Info ''Initializing Ollama with Mistral''] in
     (case OllamaLLM caps ''mistral'' ''0.7'' ''http://localhost:11434'' w3 of
       (Inl e, w4) \<Rightarrow> (Inl e, self2, w4, lg6)
     | (Inr l, w4) \<Rightarrow>
     let self3 = self2\<lparr>llm := Some l\<rparr>;
         lg7 = lg6 @ [Info ''Creating RAG chain''];
         r = \<lparr>store = vs, search_k = 3\<rparr>;
         self4 = self3\<lparr>retriever := Some r\<rparr>;
         self5 = self4\<lparr>prompt := Some template\<rparr>;
         self6 = self5\<lparr>qa_chain :=
                   Some \<lparr>chain_retriever = r, chain_prompt = template, chain_llm = l\<rparr>\<rparr>;
         self7 = self6\<lparr>initialized := True\<rparr>;
         lg8 = lg7 @ [Info ''RAG service initialized successfully'']
     in (Inr \<lparr>status = ''success'', message = ''RAG service initialized successfully'',
              chunks_count = Some (length texts)\<rparr>, self7, w4, lg8)))))))"

text \<open>
  The \<^verbatim>\<open>try\<close> block with its handler: \<^verbatim>\<open>except Exception as e\<close> logs the error and
  raises it again.
\<close>

definition initialize_try_except ::
  "('w, 'e, 'v, 'l) capabilities \<Rightarrow> ('e, 'v, 'l) rag_service \<Rightarrow> 'w \<Rightarrow> log_entry list \<Rightarrow>
   (error + init_result) \<times> ('e, 'v, 'l) rag_service \<times> 'w \<times> log_entry list" where
  "initialize_try_except caps self w lg =
    (case initialize_try caps self w lg of
       (Inl e, self', w', lg') \<Rightarrow>
         (Inl e, self', w', lg' @ [Error (''Failed to initialize RAG service: '' @ str e)])
     | (Inr r, self', w', lg') \<Rightarrow> (Inr r, self', w', lg'))"

text \<open>\<^verbatim>\<open>initialize\<close>: the guard on \<^verbatim>\<open>self.initialized\<close>, then the \<^verbatim>\<open>try\<close> statement.\<close>

definition initialize ::
  "('w, 'e, 'v, 'l) capabilities \<Rightarrow> ('e, 'v, 'l) rag_service \<Rightarrow> 'w \<Rightarrow> log_entry list \<Rightarrow>
   (error + init_result) \<times> ('e, 'v, 'l) rag_service \<times> 'w \<times> log_entry list" where
  "initialize caps self w lg =
    (if initialized self then (Inr already_initialized, self, w, lg)
     else initialize_try_except caps self w lg)"

subsection \<open>\<^verbatim>\<open>RAGService.ask_question\<close> and \<^verbatim>\<open>RAGService.get_status\<close>\<close>

definition ask_question_try ::
  "('w, 'e, 'v, 'l) capabilities \<Rightarrow> ('e, 'v, 'l) rag_service \<Rightarrow> string \<Rightarrow> 'w \<Rightarrow> log_entry list \<Rightarrow>
   (error + question_response) \<times> 'w \<times> log_entry list" where
  "ask_question_try caps self q w lg =
    (let lg1 = lg @ [Info (''Processing question: '' @ q)] in
     (case retriever self of
       None \<Rightarrow> (Inl (AttributeError ''retriever''), w, lg1)
     | Some r \<Rightarrow>
     (case retriever_invoke caps r q w of
       (Inl e, w1) \<Rightarrow> (Inl e, w1, lg1)
     | (Inr source_docs, w1) \<Rightarrow>
     (case qa_chain self of
       None \<Rightarrow> (Inl (AttributeError ''invoke''), w1, lg1)
     | Some ch \<Rightarrow>
     (case qa_chain_invoke caps ch q w1 of
       (Inl e, w2) \<Rightarrow> (Inl e, w2, lg1)
     | (Inr ans, w2) \<Rightarrow>
     let srcs = map (\<lambda>doc. \<lparr>content = page_content doc, source_metadata = metadata doc\<rparr>)
                  source_docs
     in (Inr \<lparr>question = q, answer = ans, sources = srcs, sources_count = length srcs\<rparr>,
         w2, lg1))))))"

definition ask_question ::
  "('w, 'e, 'v, 'l) capabilities \<Rightarrow> ('e, 'v, 'l) rag_service \<Rightarrow> string \<Rightarrow> 'w \<Rightarrow> log_entry list \<Rightarrow>
   (error + question_response) \<times> ('e, 'v, 'l) rag_service \<times> 'w \<times> log_entry list" where
  "ask_question caps self q w lg =
    (if \<not> initialized self
     then (Inl (RuntimeError ''RAG service not initialized. Call initialize() first.''),
           self, w, lg)
     else case ask_question_try caps self q w lg of
       (Inl e, w', lg') \<Rightarrow>
         (Inl e, self, w', lg' @ [Error (''Error processing question: '' @ str e)])
     | (Inr r, w', lg') \<Rightarrow> (Inr r, self, w', lg'))"

definition get_status ::
  "('w, 'e, 'v, 'l) capabilities \<Rightarrow> ('e, 'v, 'l) rag_service \<Rightarrow> 'w \<Rightarrow> service_status" where
  "get_status caps self w =
     \<lparr>status_initialized = initialized self,
      speech_file_exists = path_exists caps (SPEECH_FILE caps) w,
      vector_db_exists = path_exists caps (CHROMA_DB_DIR caps) w\<rparr>"

subsection \<open>The endpoints of \<^verbatim>\<open>server.py\<close>\<close>

datatype 'a response = OK 'a | HTTPException nat string

text \<open>\<^verbatim>\<open>POST /api/ambedkar/init\<close>\<close>

definition initialize_rag ::
  "('w, 'e, 'v, 'l) capabilities \<Rightarrow> ('e, 'v, 'l) rag_service \<Rightarrow> 'w \<Rightarrow> log_entry list \<Rightarrow>
   init_result response \<times> ('e, 'v, 'l) rag_service \<times> 'w \<times> log_entry list" where
  "initialize_rag caps self w lg =
    (case initialize caps self w lg of
       (Inr result, self', w', lg') \<Rightarrow> (OK result, self', w', lg')
     | (Inl e, self', w', lg') \<Rightarrow>
         (HTTPException 500 (str e), self', w',
          lg' @ [Error (''Error initializing RAG service: '' @ str e)]))"

text \<open>\<^verbatim>\<open>GET /api/ambedkar/status\<close>\<close>

definition get_rag_status ::
  "('w, 'e, 'v, 'l) capabilities \<Rightarrow> ('e, 'v, 'l) rag_service \<Rightarrow> 'w \<Rightarrow> service_status" where
  "get_rag_status caps self w = get_status caps self w"

text \<open>
  The two handlers of \<^verbatim>\<open>POST /api/ambedkar/ask\<close>: \<^verbatim>\<open>except RuntimeError\<close> answers 503,
  \<^verbatim>\<open>except Exception\<close> logs and answers 500.
\<close>

fun ask_question_except ::
  "error \<Rightarrow> log_entry list \<Rightarrow> question_response response \<times> log_entry list" where
  "ask_question_except (RuntimeError m) lg =
     (HTTPException 503 ''RAG service not initialized'', lg)"
| "ask_question_except e lg =
     (HTTPException 500 (str e), lg @ [Error (''Error processing question: '' @ str e)])"

text \<open>
  \<^verbatim>\<open>POST /api/ambedkar/ask\<close>: when the service is not initialized, \<^verbatim>\<open>initialize()\<close> is
  called first, inside the same \<^verbatim>\<open>try\<close>.
\<close>

definition ask_question_endpoint ::
  "('w, 'e, 'v, 'l) capabilities \<Rightarrow> ('e, 'v, 'l) rag_service \<Rightarrow> string \<Rightarrow> 'w \<Rightarrow> log_entry list \<Rightarrow>
   question_response response \<times> ('e, 'v, 'l) rag_service \<times> 'w \<times> log_entry list" where
  "ask_question_endpoint caps self q w lg =
    (case (if \<not> initialized self
           then (case initialize caps self w lg of
                   (Inl e, self1, w1, lg1) \<Rightarrow> (Some e, self1, w1, lg1)
                 | (Inr r, self1, w1, lg1) \<Rightarrow> (None, self1, w1, lg1))
           else (None, self, w, lg)) of
       (Some e, self1, w1, lg1) \<Rightarrow>
         (case ask_question_except e lg1 of (resp, lg2) \<Rightarrow> (resp, self1, w1, lg2))
     | (None, self1, w1, lg1) \<Rightarrow>
         (case ask_question caps self1 q w1 lg1 of
            (Inl e, self2, w2, lg2) \<Rightarrow>
              (case ask_question_except e lg2 of (resp, lg3) \<Rightarrow> (resp, self2, w2, lg3))
          | (Inr result, self2, w2, lg2) \<Rightarrow> (OK result, self2, w2, lg2)))"

subsection \<open>\<^verbatim>\<open>AmbedkarQA.ask\<close> of the command-line program\<close>

text \<open>
  The object of the command-line program has no \<^verbatim>\<open>initialized\<close> flag: \<^verbatim>\<open>ask\<close> tests
  \<^verbatim>\<open>self.qa_chain\<close>. It returns the answer and the source documents.
\<close>

definition ask ::
  "('w, 'e, 'v, 'l) capabilities \<Rightarrow> ('e, 'v, 'l) rag_service \<Rightarrow> string \<Rightarrow> 'w \<Rightarrow>
   (error + string \<times> document list) \<times> 'w" where
  "ask caps self q w =
    (case qa_chain self of
       None \<Rightarrow> (Inl (RuntimeError ''QA system not initialized. Call setup() first.''), w)
     | Some ch \<Rightarrow>
     (case retriever self of
       None \<Rightarrow> (Inl (AttributeError ''retriever''), w)
     | Some r \<Rightarrow>
     (case retriever_invoke caps r q w of
       (Inl e, w1) \<Rightarrow> (Inl e, w1)
     | (Inr source_docs, w1) \<Rightarrow>
     (case qa_chain_invoke caps ch q w1 of
       (Inl e, w2) \<Rightarrow> (Inl e, w2)
     | (Inr ans, w2) \<Rightarrow> (Inr (ans, source_docs), w2)))))"

subsection \<open>The singleton: \<^verbatim>\<open>RAGService.__new__\<close> and \<^verbatim>\<open>RAGService.__init__\<close>\<close>

text \<open>
  Objects live in a heap, addressed by numbers; \<open>instance_ref\<close> is the class attribute
  \<^verbatim>\<open>RAGService._instance\<close> (\<open>None\<close> or the address of the instance), \<open>next_addr\<close> the next
  free address.
\<close>

record ('e, 'v, 'l) heap =
  objects :: "nat \<Rightarrow> ('e, 'v, 'l) rag_service option"
  instance_ref :: "nat option"
  next_addr :: nat

definition fresh_object :: "('e, 'v, 'l) rag_service" where
  "fresh_object =
     \<lparr>initialized = False, vectorstore = None, qa_chain = None, embeddings = None,
      llm = None, retriever = None, prompt = None\<rparr>"

definition RAGService_new :: "('e, 'v, 'l) heap \<Rightarrow> nat \<times> ('e, 'v, 'l) heap" where
  "RAGService_new h =
    (case instance_ref h of
       None \<Rightarrow>
         (let a = next_addr h;
              h1 = h\<lparr>objects := (objects h)(a \<mapsto> fresh_object), next_addr := Suc a\<rparr>;
              h2 = h1\<lparr>instance_ref := Some a\<rparr>;
              h3 = h2\<lparr>objects := (objects h2)(a \<mapsto> fresh_object\<lparr>initialized := False\<rparr>)\<rparr>
          in (a, h3))
     | Some a \<Rightarrow> (a, h))"

text \<open>
  \<^verbatim>\<open>__init__\<close> runs on the object \<^verbatim>\<open>__new__\<close> returned. A reference always points to
  an object; the first case is there to make the function total.
\<close>

definition RAGService_init :: "nat \<Rightarrow> ('e, 'v, 'l) heap \<Rightarrow> ('e, 'v, 'l) heap" where
  "RAGService_init self h =
    (case objects h self of
       None \<Rightarrow> h
     | Some obj \<Rightarrow>
         if \<not> initialized obj
         then h\<lparr>objects := (objects h)(self \<mapsto>
                 obj\<lparr>vectorstore := None, qa_chain := None, embeddings := None,
                     initialized := False\<rparr>)\<rparr>
         else h)"

text \<open>The call \<^verbatim>\<open>RAGService()\<close>.\<close>

definition RAGService :: "('e, 'v, 'l) heap \<Rightarrow> nat \<times> ('e, 'v, 'l) heap" where
  "RAGService h = (case RAGService_new h of (a, h1) \<Rightarrow> (a, RAGService_init a h1))"

text \<open>A method call \<^verbatim>\<open>obj.initialize()\<close> through a reference.\<close>

definition call_initialize ::
  "('w, 'e, 'v, 'l) capabilities \<Rightarrow> nat \<Rightarrow> ('e, 'v, 'l) heap \<Rightarrow> 'w \<Rightarrow> log_entry list \<Rightarrow>
   (error + init_result) \<times> ('e, 'v, 'l) heap \<times> 'w \<times> log_entry list" where
  "call_initialize caps a h w lg =
    (case objects h a of
       None \<Rightarrow> (Inl (AttributeError ''initialize''), h, w, lg)
     | Some obj \<Rightarrow>
         (case initialize caps obj w lg of
            (r, obj', w', lg') \<Rightarrow> (r, h\<lparr>objects := (objects h)(a \<mapsto> obj')\<rparr>, w', lg')))"

subsection \<open>Callers of \<^verbatim>\<open>initialize\<close> that overlap\<close>

text \<open>
  \<^verbatim>\<open>initialize\<close> reads \<^verbatim>\<open>self.initialized\<close> on entry and sets it in the last assignment
  of the \<^verbatim>\<open>try\<close> block; it reads \<^verbatim>\<open>CHROMA_DB_DIR.exists()\<close> and then loads or builds
  the index. The source holds no lock anywhere. To let callers overlap, the \<^verbatim>\<open>try\<close>
  block is cut at the test of the directory: \<open>initialize_try_head\<close> is the block up to
  and with that test, \<open>initialize_try_tail\<close> the rest.
\<close>

definition initialize_try_head ::
  "('w, 'e, 'v, 'l) capabilities \<Rightarrow> ('e, 'v, 'l) rag_service \<Rightarrow> 'w \<Rightarrow> log_entry list \<Rightarrow>
   (error + document list \<times> 'e \<times> bool) \<times> ('e, 'v, 'l) rag_service \<times> 'w \<times> log_entry list" where
  "initialize_try_head caps self w lg =
    (let lg1 = lg @ [Info ''Initializing RAG service...''] in
     if \<not> path_exists caps (SPEECH_FILE caps) w
     then (Inl (FileNotFoundError (''Speech file not found at '' @ SPEECH_FILE caps)),
           self, w, lg1)
     else
     let lg2 = lg1 @ [Info (''Loading speech from '' @ SPEECH_FILE caps)] in
     (case TextLoader_load caps (SPEECH_FILE caps) w of
       (Inl e, w1) \<Rightarrow> (Inl e, self, w1, lg2)
     | (Inr documents, w1) \<Rightarrow>
     let lg3 = lg2 @ [Info ''Splitting text into chunks''] in
     (case split_documents caps 200 50 ''. '' documents of
       Inl e \<Rightarrow> (Inl e, self, w1, lg3)
     | Inr texts \<Rightarrow>
     let lg4 = lg3 @ [Info ''Loading HuggingFace embeddings''] in
     (case HuggingFaceEmbeddings caps ''sentence-transformers/all-MiniLM-L6-v2'' w1 of
       (Inl e, w2) \<Rightarrow> (Inl e, self, w2, lg4)
     | (Inr emb, w2) \<Rightarrow>
     let self1 = self\<lparr>embeddings := Some emb\<rparr>;
         lg5 = lg4 @ [Info ''Setting up ChromaDB vector store'']
     in (Inr (texts, emb, path_exists caps (CHROMA_DB_DIR caps) w2), self1, w2, lg5)))))"

definition initialize_try_tail ::
  "('w, 'e, 'v, 'l) capabilities \<Rightarrow> document list \<Rightarrow> 'e \<Rightarrow> bool \<Rightarrow>
   ('e, 'v, 'l) rag_service \<Rightarrow> 'w \<Rightarrow> log_entry list \<Rightarrow>
   (error + init_result) \<times> ('e, 'v, 'l) rag_service \<times> 'w \<times> log_entry list" where
  "initialize_try_tail caps texts emb dir_exists self1 w2 lg5 =
     (case (if dir_exists
            then Chroma caps (CHROMA_DB_DIR caps) emb w2
            else Chroma_from_documents caps texts emb (CHROMA_DB_DIR caps) w2) of
       (Inl e, w3) \<Rightarrow> (Inl e, self1, w3, lg5)
     | (Inr vs, w3) \<Rightarrow>
     let self2 = self1\<lparr>vectorstore := Some vs\<rparr>;
         lg6 = lg5 @ [Info ''Initializing Ollama with Mistral''] in
     (case OllamaLLM caps ''mistral'' ''0.7'' ''http://localhost:11434'' w3 of
       (Inl e, w4) \<Rightarrow> (Inl e, self2, w4, lg6)
     | (Inr l, w4) \<Rightarrow>
     let self3 = self2\<lparr>llm := Some l\<rparr>;
         lg7 = lg6 @ [Info ''Creating RAG chain''];
         r = \<lparr>store = vs, search_k = 3\<rparr>;
         self4 = self3\<lparr>retriever := Some r\<rparr>;
         self5 = self4\<lparr>prompt := Some template\<rparr>;
         self6 = self5\<lparr>qa_chain :=
                   Some \<lparr>chain_retriever = r, chain_prompt = template, chain_llm = l\<rparr>\<rparr>;
         self7 = self6\<lparr>initialized := True\<rparr>;
         lg8 = lg7 @ [Info ''RAG service initialized successfully'']
     in (Inr \<lparr>status = ''success'', message = ''RAG service initialized successfully'',
              chunks_count = Some (length texts)\<rparr>, self7, w4, lg8)))"

text \<open>
  A caller is before the test of the flag, inside the \<^verbatim>\<open>try\<close> block before its first
  statement, inside it after the test of the directory (holding its chunks, its embedding
  model and the outcome of the test), or returned. One step of a caller runs it to its
  next place; an error inside the block goes through the handler, which logs it and
  raises it again. The callers share the object, the world and the log.
\<close>

datatype 'e place =
    AtEntry
  | InTry
  | AtStore "document list" 'e bool
  | Returned "error + init_result"

record ('w, 'e, 'v, 'l) system =
  shared :: "('e, 'v, 'l) rag_service"
  world :: 'w
  logged :: "log_entry list"
  callers :: "'e place list"

definition step ::
  "('w, 'e, 'v, 'l) capabilities \<Rightarrow> ('w, 'e, 'v, 'l) system \<Rightarrow> nat \<Rightarrow> ('w, 'e, 'v, 'l) system" where
  "step caps sys i =
    (if length (callers sys) \<le> i then sys
     else case callers sys ! i of
       AtEntry \<Rightarrow>
         if initialized (shared sys)
         then sys\<lparr>callers := (callers sys)[i := Returned (Inr already_initialized)]\<rparr>
         else sys\<lparr>callers := (callers sys)[i := InTry]\<rparr>
     | InTry \<Rightarrow>
         (case initialize_try_head caps (shared sys) (world sys) (logged sys) of
            (Inl e, self', w', lg') \<Rightarrow>
              \<lparr>shared = self', world = w',
               logged = lg' @ [Error (''Failed to initialize RAG service: '' @ str e)],
               callers = (callers sys)[i := Returned (Inl e)]\<rparr>
          | (Inr (texts, emb, dir_exists), self', w', lg') \<Rightarrow>
              \<lparr>shared = self', world = w', logged = lg',
               callers = (callers sys)[i := AtStore texts emb dir_exists]\<rparr>)
     | AtStore texts emb dir_exists \<Rightarrow>
         (case initialize_try_tail caps texts emb dir_exists
                 (shared sys) (world sys) (logged sys) of
            (Inl e, self', w', lg') \<Rightarrow>
              \<lparr>shared = self', world = w',
               logged = lg' @ [Error (''Failed to initialize RAG service: '' @ str e)],
               callers = (callers sys)[i := Returned (Inl e)]\<rparr>
          | (Inr r, self', w', lg') \<Rightarrow>
              \<lparr>shared = self', world = w', logged = lg',
               callers = (callers sys)[i := Returned (Inr r)]\<rparr>)
     | Returned r \<Rightarrow> sys)"

text \<open>A schedule is the list of the callers that take the next step, in order.\<close>

definition run ::
  "('w, 'e, 'v, 'l) capabilities \<Rightarrow> nat list \<Rightarrow> ('w, 'e, 'v, 'l) system \<Rightarrow> ('w, 'e, 'v, 'l) system" where
  "run caps schedule sys = foldl (step caps) sys schedule"

text \<open>
  The schedule in which the callers \<open>k, k + 1, ..., k + n - 1\<close> run one after another, each
  to its return before the next one starts.
\<close>

fun one_after_another :: "nat \<Rightarrow> nat \<Rightarrow> nat list" where
  "one_after_another k 0 = []"
| "one_after_another k (Suc n) = [k, k, k] @ one_after_another (Suc k) n"

subsection \<open>A small instance of the capabilities\<close>

text \<open>
  An outside world with the text of the speech file (if the file exists), the documents of
  the persisted index (if its directory exists) and the number of searches made so far.
  The splitter keeps every document with text as one chunk, the index refuses to be built
  from no chunks and adds the chunks it is built from to the documents already in its
  directory, a search returns the first \<open>k\<close> documents, the language model echoes its
  prompt.
\<close>

record demo_world =
  speech :: "string option"
  chroma_db :: "document list option"
  searches :: nat

definition demo_caps :: "(demo_world, string, string, string) capabilities" where
  "demo_caps =
    \<lparr>ROOT_DIR = ''/app'',
     path_exists = (\<lambda>p w. if p = ''/app/speech.txt'' then speech w \<noteq> None
                           else if p = ''/app/chroma_db'' then chroma_db w \<noteq> None
                           else False),
     TextLoader_load = (\<lambda>p w. case speech w of
                           None \<Rightarrow> (Inl (RuntimeError (''Error loading '' @ p)), w)
                         | Some t \<Rightarrow> (Inr [Document t [(''source'', p)]], w)),
     split_documents = (\<lambda>chunk_size chunk_overlap separator docs.
                           Inr (filter (\<lambda>d. page_content d \<noteq> []) docs)),
     HuggingFaceEmbeddings = (\<lambda>model_name w. (Inr model_name, w)),
     Chroma = (\<lambda>dir emb w. (Inr dir, w)),
     Chroma_from_documents = (\<lambda>texts emb dir w.
                           if texts = [] then (Inl (ExternalError ''no documents''), w)
                           else (Inr dir, w\<lparr>chroma_db := Some
                                    ((case chroma_db w of None \<Rightarrow> [] | Some ds \<Rightarrow> ds)
                                     @ texts)\<rparr>)),
     OllamaLLM = (\<lambda>model temperature base_url w. (Inr model, w)),
     retriever_invoke = (\<lambda>r q w. case chroma_db w of
                           None \<Rightarrow> (Inl (ExternalError ''no index''), w)
                         | Some ds \<Rightarrow> (Inr (take (search_k r) ds),
                                      w\<lparr>searches := Suc (searches w)\<rparr>)),
     llm_invoke = (\<lambda>l p w. (Inr p, w))\<rparr>"

text \<open>
  The same, with an index whose ranking moves between two searches: each search starts
  one document further.
\<close>

definition drifting_caps :: "(demo_world, string, string, string) capabilities" where
  "drifting_caps =
     demo_caps\<lparr>retriever_invoke := (\<lambda>r q w. case chroma_db w of
                           None \<Rightarrow> (Inl (ExternalError ''no index''), w)
                         | Some ds \<Rightarrow> (Inr (take (search_k r) (rotate (searches w) ds)),
                                      w\<lparr>searches := Suc (searches w)\<rparr>))\<rparr>"

text \<open>
  A world in which the speech file exists and the index directory does not, and what a
  first \<^verbatim>\<open>initialize()\<close> makes of it.
\<close>

definition demo_speech :: string where
  "demo_speech = ''Caste is not just a division of labour. It is a division of labourers. This is harmful to society.''"

definition demo_chunk :: document where
  "demo_chunk = Document demo_speech [(''source'', ''/app/speech.txt'')]"

definition demo_new_world :: demo_world where
  "demo_new_world = \<lparr>speech = Some demo_speech, chroma_db = None, searches = 0\<rparr>"

definition demo_indexed_world :: demo_world where
  "demo_indexed_world = \<lparr>speech = Some demo_speech, chroma_db = Some [demo_chunk], searches = 0\<rparr>"

definition demo_retriever :: "string vs_retriever" where
  "demo_retriever = \<lparr>store = ''/app/chroma_db'', search_k = 3\<rparr>"

definition demo_ready :: "(string, string, string) rag_service" where
  "demo_ready =
     \<lparr>initialized = True, vectorstore = Some ''/app/chroma_db'',
      qa_chain = Some \<lparr>chain_retriever = demo_retriever, chain_prompt = template,
                        chain_llm = ''mistral''\<rparr>,
      embeddings = Some ''sentence-transformers/all-MiniLM-L6-v2'',
      llm = Some ''mistral'', retriever = Some demo_retriever, prompt = Some template\<rparr>"

text \<open>The result and the log of an \<^verbatim>\<open>initialize()\<close> in which every step succeeds.\<close>

definition success_result :: "nat \<Rightarrow> init_result" where
  "success_result n =
     \<lparr>status = ''success'', message = ''RAG service initialized successfully'',
      chunks_count = Some n\<rparr>"

definition success_log :: "('w, 'e, 'v, 'l) capabilities \<Rightarrow> log_entry list" where
  "success_log caps =
     [Info ''Initializing RAG service...'',
      Info (''Loading speech from '' @ SPEECH_FILE caps),
      Info ''Splitting text into chunks'',
      Info ''Loading HuggingFace embeddings'',
      Info ''Setting up ChromaDB vector store'',
      Info ''Initializing Ollama with Mistral'',
      Info ''Creating RAG chain'',
      Info ''RAG service initialized successfully'']"

text \<open>A question, its answer by the echoing model, and the world after the two searches.\<close>

definition demo_question :: string where
  "demo_question = ''What is caste?''"

definition demo_response :: question_response where
  "demo_response =
     \<lparr>question = demo_question, answer = rendered_prompt demo_speech demo_question,
      sources = [\<lparr>content = demo_speech, source_metadata = [(''source'', ''/app/speech.txt'')]\<rparr>],
      sources_count = 1\<rparr>"

definition demo_asked_world :: demo_world where
  "demo_asked_world = \<lparr>speech = Some demo_speech, chroma_db = Some [demo_chunk], searches = 2\<rparr>"

text \<open>Worlds without the speech file, and with an empty speech file.\<close>

definition demo_no_file_world :: demo_world where
  "demo_no_file_world = \<lparr>speech = None, chroma_db = None, searches = 0\<rparr>"

definition demo_empty_new_world :: demo_world where
  "demo_empty_new_world = \<lparr>speech = Some [], chroma_db = None, searches = 0\<rparr>"

definition demo_empty_indexed_world :: demo_world where
  "demo_empty_indexed_world = \<lparr>speech = Some [], chroma_db = Some [demo_chunk], searches = 0\<rparr>"

text \<open>An index directory that holds four chunks.\<close>

definition chunk_a :: document where
  "chunk_a = Document ''Caste is not just a division of labour'' [(''source'', ''/app/speech.txt'')]"

definition chunk_b :: document where
  "chunk_b = Document ''It is a division of labourers'' [(''source'', ''/app/speech.txt'')]"

definition chunk_c :: document where
  "chunk_c = Document ''This is harmful to society'' [(''source'', ''/app/speech.txt'')]"

definition chunk_d :: document where
  "chunk_d = Document ''Caste is a notion'' [(''source'', ''/app/speech.txt'')]"

definition four_chunk_world :: demo_world where
  "four_chunk_world =
     \<lparr>speech = Some demo_speech, chroma_db = Some [chunk_a, chunk_b, chunk_c, chunk_d],
      searches = 0\<rparr>"

definition source_of :: "document \<Rightarrow> source_entry" where
  "source_of doc = \<lparr>content = page_content doc, source_metadata = metadata doc\<rparr>"

text \<open>
  The heap before the module \<^verbatim>\<open>rag_service\<close> is imported, and \<open>n\<close> further calls of
  \<^verbatim>\<open>RAGService()\<close> on a heap.
\<close>

definition empty_heap :: "('e, 'v, 'l) heap" where
  "empty_heap = \<lparr>objects = (\<lambda>a. None), instance_ref = None, next_addr = 0\<rparr>"

fun construct_times :: "nat \<Rightarrow> ('e, 'v, 'l) heap \<Rightarrow> ('e, 'v, 'l) heap" where
  "construct_times 0 h = h"
| "construct_times (Suc n) h = construct_times n (snd (RAGService h))"

text \<open>Two callers of \<^verbatim>\<open>initialize()\<close> on a fresh service, neither of which has started.\<close>

definition racing_system :: "(demo_world, string, string, string) system" where
  "racing_system =
     \<lparr>shared = fresh_object, world = demo_new_world, logged = [],
      callers = [AtEntry, AtEntry]\<rparr>"

text \<open>The log entries of the two parts of the \<^verbatim>\<open>try\<close> block, when every step succeeds.\<close>

definition head_log :: "('w, 'e, 'v, 'l) capabilities \<Rightarrow> log_entry list" where
  "head_log caps =
     [Info ''Initializing RAG service...'',
      Info (''Loading speech from '' @ SPEECH_FILE caps),
      Info ''Splitting text into chunks'',
      Info ''Loading HuggingFace embeddings'',
      Info ''Setting up ChromaDB vector store'']"

definition tail_log :: "log_entry list" where
  "tail_log =
     [Info ''Initializing Ollama with Mistral'',
      Info ''Creating RAG chain'',
      Info ''RAG service initialized successfully'']"

text \<open>
  The same capabilities with a language model that raises on one question: given the
  prompt of \<open>bad_question\<close> over the indexed chunk it raises a \<^verbatim>\<open>RuntimeError\<close>, and it
  echoes every other prompt. The world after a first question, and after a second one.
\<close>

definition bad_question :: string where
  "bad_question = ''Why?''"

definition picky_caps :: "(demo_world, string, string, string) capabilities" where
  "picky_caps =
     demo_caps\<lparr>llm_invoke := (\<lambda>l p w.
        if p = rendered_prompt (format_docs [demo_chunk]) bad_question
        then (Inl (RuntimeError ''model error''), w)
        else (Inr p, w))\<rparr>"

definition demo_asked_twice_world :: demo_world where
  "demo_asked_twice_world =
     \<lparr>speech = Some demo_speech, chroma_db = Some [demo_chunk], searches = 4\<rparr>"

section \<open>Properties\<close>

subsection \<open>What \<^verbatim>\<open>initialize\<close> does to the flag and to the log\<close>

lemma initialize_try_Inr:
  "initialize_try caps self w lg = (Inr r, self', w', lg') \<Longrightarrow> initialized self'"
  by (auto simp: initialize_try_def Let_def split: if_splits prod.splits sum.splits)

lemma initialize_try_Inl:
  "initialize_try caps self w lg = (Inl e, self', w', lg') \<Longrightarrow>
   initialized self' = initialized self"
  by (auto simp: initialize_try_def Let_def split: if_splits prod.splits sum.splits)

lemma initialize_try_log:
  "initialize_try caps self w lg = (r, self', w', lg') \<Longrightarrow>
   \<exists>rest. lg' = lg @ Info ''Initializing RAG service...'' # rest \<and>
          Info ''Initializing RAG service...'' \<notin> set rest"
  by (auto simp: initialize_try_def Let_def split: if_splits prod.splits sum.splits)

lemma initialize_try_cause:
  assumes "initialize_try caps self w lg = (Inl e, self', w', lg')"
  shows "(\<not> path_exists caps (SPEECH_FILE caps) w \<and>
            e = FileNotFoundError (''Speech file not found at '' @ SPEECH_FILE caps))
         \<or> (\<exists>w1. TextLoader_load caps (SPEECH_FILE caps) w = (Inl e, w1))
         \<or> (\<exists>docs. split_documents caps 200 50 ''. '' docs = Inl e)
         \<or> (\<exists>wa wb. HuggingFaceEmbeddings caps ''sentence-transformers/all-MiniLM-L6-v2'' wa
                       = (Inl e, wb))
         \<or> (\<exists>emb wa wb. Chroma caps (CHROMA_DB_DIR caps) emb wa = (Inl e, wb))
         \<or> (\<exists>texts emb wa wb.
               Chroma_from_documents caps texts emb (CHROMA_DB_DIR caps) wa = (Inl e, wb))
         \<or> (\<exists>wa wb. OllamaLLM caps ''mistral'' ''0.7'' ''http://localhost:11434'' wa
                       = (Inl e, wb))"
  using assms
  by (auto simp: initialize_try_def Let_def split: if_splits prod.splits sum.splits)

lemma initialize_Inr:
  "initialize caps self w lg = (Inr r, self', w', lg') \<Longrightarrow> initialized self'"
  by (auto simp: initialize_def initialize_try_except_def
           split: if_splits prod.splits sum.splits dest: initialize_try_Inr)

lemma initialize_again:
  "initialized self \<Longrightarrow> initialize caps self w lg = (Inr already_initialized, self, w, lg)"
  by (simp add: initialize_def)

lemma initialize_Inl:
  "initialize caps self w lg = (Inl e, self', w', lg') \<Longrightarrow>
   \<not> initialized self \<and> \<not> initialized self' \<and>
   (\<exists>l. initialize_try caps self w lg = (Inl e, self', w', l) \<and>
        lg' = l @ [Error (''Failed to initialize RAG service: '' @ str e)])"
  by (auto simp: initialize_def initialize_try_except_def
           split: if_splits prod.splits sum.splits dest: initialize_try_Inl)

lemma initialize_log_count:
  assumes "\<not> initialized self" "initialize caps self w lg = (r, self', w', lg')"
  shows "count_list lg' (Info ''Initializing RAG service...'') =
         Suc (count_list lg (Info ''Initializing RAG service...''))"
proof -
  obtain r0 l where t: "initialize_try caps self w lg = (r0, self', w', l)"
    and l: "lg' = l \<or> (\<exists>e. lg' = l @ [Error e])"
    using assms
    by (auto simp: initialize_def initialize_try_except_def split: prod.splits sum.splits)
  from initialize_try_log[OF t] obtain rest where
    "l = lg @ Info ''Initializing RAG service...'' # rest"
    "Info ''Initializing RAG service...'' \<notin> set rest" by blast
  then have "count_list l (Info ''Initializing RAG service...'') =
         Suc (count_list lg (Info ''Initializing RAG service...''))"
    by (simp add: count_list_0_iff)
  with l show ?thesis by auto
qed

subsection \<open>What \<^verbatim>\<open>ask_question\<close> does to the object and to the log\<close>

lemma format_template:
  "format_prompt template [(''context'', c), (''question'', q)] = Inr (rendered_prompt c q)"
  by (simp add: template_def rendered_prompt_def)

lemma ask_question_state:
  "ask_question caps self q w lg = (res, self', w', lg') \<Longrightarrow> self' = self"
  by (auto simp: ask_question_def split: if_splits prod.splits sum.splits)

lemma ask_question_try_log:
  "ask_question_try caps self q w lg = (r, w', lg') \<Longrightarrow>
   lg' = lg @ [Info (''Processing question: '' @ q)]"
  by (auto simp: ask_question_try_def Let_def split: option.splits prod.splits sum.splits)

lemma ask_question_log_count:
  assumes "ask_question caps self q w lg = (r, self', w', lg')"
  shows "count_list lg' (Info ''Initializing RAG service...'') =
         count_list lg (Info ''Initializing RAG service...'')"
  using assms
  by (auto simp: ask_question_def split: if_splits prod.splits sum.splits
           dest!: ask_question_try_log)

lemma ask_question_except_log_count:
  "ask_question_except e lg = (resp, lg') \<Longrightarrow>
   count_list lg' (Info ''Initializing RAG service...'') =
         count_list lg (Info ''Initializing RAG service...'')"
  by (cases e) auto

lemma ask_question_surfaces:
  "initialized self \<Longrightarrow> ask_question_try caps self q w lg = (Inl e, w', lg') \<Longrightarrow>
   ask_question caps self q w lg =
     (Inl e, self, w', lg' @ [Error (''Error processing question: '' @ str e)])"
  by (simp add: ask_question_def)

lemma ask_question_try_first_retrieval:
  "retriever self = Some r \<Longrightarrow> retriever_invoke caps r q w = (Inl e, w1) \<Longrightarrow>
   ask_question_try caps self q w lg = (Inl e, w1, lg @ [Info (''Processing question: '' @ q)])"
  by (simp add: ask_question_try_def Let_def)

lemma ask_question_try_second_retrieval:
  "retriever self = Some r \<Longrightarrow>
   qa_chain self = Some \<lparr>chain_retriever = r, chain_prompt = template, chain_llm = l\<rparr> \<Longrightarrow>
   retriever_invoke caps r q w = (Inr docs1, w1) \<Longrightarrow>
   retriever_invoke caps r q w1 = (Inl e, w2) \<Longrightarrow>
   ask_question_try caps self q w lg = (Inl e, w2, lg @ [Info (''Processing question: '' @ q)])"
  by (simp add: ask_question_try_def qa_chain_invoke_def Let_def)

lemma ask_question_try_llm:
  "retriever self = Some r \<Longrightarrow>
   qa_chain self = Some \<lparr>chain_retriever = r, chain_prompt = template, chain_llm = l\<rparr> \<Longrightarrow>
   retriever_invoke caps r q w = (Inr docs1, w1) \<Longrightarrow>
   retriever_invoke caps r q w1 = (Inr docs2, w2) \<Longrightarrow>
   llm_invoke caps l (rendered_prompt (format_docs docs2) q) w2 = (Inl e, w3) \<Longrightarrow>
   ask_question_try caps self q w lg = (Inl e, w3, lg @ [Info (''Processing question: '' @ q)])"
  by (simp add: ask_question_try_def qa_chain_invoke_def format_template Let_def)

lemma ask_question_answers:
  "initialized self \<Longrightarrow> retriever self = Some r \<Longrightarrow>
   qa_chain self = Some \<lparr>chain_retriever = r, chain_prompt = template, chain_llm = l\<rparr> \<Longrightarrow>
   retriever_invoke caps r q w = (Inr docs1, w1) \<Longrightarrow>
   retriever_invoke caps r q w1 = (Inr docs2, w2) \<Longrightarrow>
   llm_invoke caps l (rendered_prompt (format_docs docs2) q) w2 = (Inr a, w3) \<Longrightarrow>
   ask_question caps self q w lg =
     (Inr \<lparr>question = q, answer = a, sources = map source_of docs1,
           sources_count = length docs1\<rparr>,
      self, w3, lg @ [Info (''Processing question: '' @ q)])"
  by (simp add: ask_question_def ask_question_try_def qa_chain_invoke_def
        format_template Let_def source_of_def)

lemma initialize_assembles:
  assumes "\<not> initialized self" "initialize caps self w lg = (Inr r, self', w', lg')"
  shows "\<exists>vs l. vectorstore self' = Some vs \<and> llm self' = Some l \<and>
           retriever self' = Some \<lparr>store = vs, search_k = 3\<rparr> \<and>
           prompt self' = Some template \<and>
           qa_chain self' = Some \<lparr>chain_retriever = \<lparr>store = vs, search_k = 3\<rparr>,
                                   chain_prompt = template, chain_llm = l\<rparr>"
  using assms
  by (auto simp: initialize_def initialize_try_except_def initialize_try_def Let_def
           split: if_splits prod.splits sum.splits)

subsection \<open>What \<^verbatim>\<open>RAGService()\<close> does to the heap\<close>

lemma RAGService_instance_ref:
  "RAGService h = (a, h') \<Longrightarrow> instance_ref h' = Some a"
  by (auto simp: RAGService_def RAGService_new_def RAGService_init_def Let_def
           split: option.splits if_splits)

lemma RAGService_same:
  "instance_ref h = Some a \<Longrightarrow> fst (RAGService h) = a"
  by (simp add: RAGService_def RAGService_new_def)

lemma RAGService_initialized:
  "instance_ref h = Some a \<Longrightarrow> objects h a = Some obj \<Longrightarrow> initialized obj \<Longrightarrow>
   RAGService h = (a, h)"
  by (simp add: RAGService_def RAGService_new_def RAGService_init_def)

lemma construct_times_instance_ref:
  "instance_ref h = Some a \<Longrightarrow> instance_ref (construct_times n h) = Some a"
proof (induction n arbitrary: h)
  case 0
  then show ?case by simp
next
  case (Suc n)
  have "instance_ref (snd (RAGService h)) = Some (fst (RAGService h))"
    by (rule RAGService_instance_ref) simp
  with Suc.prems have "instance_ref (snd (RAGService h)) = Some a"
    by (simp add: RAGService_same)
  then show ?case using Suc.IH by simp
qed

lemma construct_times_initialized:
  "instance_ref h = Some a \<Longrightarrow> objects h a = Some obj \<Longrightarrow> initialized obj \<Longrightarrow>
   construct_times n h = h"
  by (induction n) (simp_all add: RAGService_initialized)

lemma call_initialize_Inr:
  assumes "call_initialize caps a h w lg = (Inr r, h', w', lg')"
  shows "instance_ref h' = instance_ref h \<and>
         (\<exists>obj. objects h' a = Some obj \<and> initialized obj)"
  using assms
  by (auto simp: call_initialize_def split: option.splits prod.splits dest: initialize_Inr)

subsection \<open>Steps of callers\<close>

lemma initialize_try_split:
  "initialize_try caps self w lg =
     (case initialize_try_head caps self w lg of
        (Inl e, self1, w2, lg5) \<Rightarrow> (Inl e, self1, w2, lg5)
      | (Inr (texts, emb, dir_exists), self1, w2, lg5) \<Rightarrow>
          initialize_try_tail caps texts emb dir_exists self1 w2 lg5)"
  by (simp add: initialize_try_def initialize_try_head_def initialize_try_tail_def Let_def
           split: prod.splits sum.splits)

lemma run_Nil: "run caps [] sys = sys"
  by (simp add: run_def)

lemma run_Cons: "run caps (i # is) sys = run caps is (step caps sys i)"
  by (simp add: run_def)

lemma three_steps:
  assumes "i < length cs" "cs ! i = AtEntry"
  shows "run caps [i, i, i] \<lparr>shared = self, world = w, logged = lg, callers = cs\<rparr> =
         (case initialize caps self w lg of
            (r, self', w', lg') \<Rightarrow>
              \<lparr>shared = self', world = w', logged = lg', callers = cs[i := Returned r]\<rparr>)"
proof (cases "initialized self")
  case True
  then show ?thesis using assms
    by (simp add: run_Cons run_Nil step_def initialize_def)
next
  case False
  show ?thesis
  proof (cases "initialize_try_head caps self w lg")
    case (fields r0 self1 w2 lg5)
    show ?thesis
    proof (cases r0)
      case (Inl e)
      then show ?thesis using assms False fields
        by (simp add: run_Cons run_Nil step_def initialize_def initialize_try_except_def
              initialize_try_split)
    next
      case (Inr t)
      obtain texts emb ex where t: "t = (texts, emb, ex)" by (cases t)
      show ?thesis
      proof (cases "initialize_try_tail caps texts emb ex self1 w2 lg5")
        case tl: (fields r1 self' w' lg')
        show ?thesis using assms False fields Inr t tl
          by (cases r1)
             (simp_all add: run_Cons run_Nil step_def initialize_def initialize_try_except_def
                initialize_try_split)
      qed
    qed
  qed
qed

lemma later_callers:
  assumes "initialized self"
  shows "run caps (one_after_another (length done) n)
           \<lparr>shared = self, world = w, logged = lg, callers = done @ replicate n AtEntry\<rparr> =
         \<lparr>shared = self, world = w, logged = lg,
          callers = done @ replicate n (Returned (Inr already_initialized))\<rparr>"
proof (induction n arbitrary: "done")
  case 0
  show ?case by (simp add: run_Nil)
next
  case (Suc n)
  have a: "length done < length (done @ replicate (Suc n) AtEntry)" by simp
  have b: "(done @ replicate (Suc n) AtEntry) ! length done = AtEntry"
    by (simp add: nth_append)
  have "run caps [length done, length done, length done]
          \<lparr>shared = self, world = w, logged = lg, callers = done @ replicate (Suc n) AtEntry\<rparr> =
        \<lparr>shared = self, world = w, logged = lg,
         callers = (done @ [Returned (Inr already_initialized)]) @ replicate n AtEntry\<rparr>"
    unfolding three_steps[OF a b] using assms
    by (simp add: initialize_again list_update_append)
  then show ?case
    using Suc.IH[of "done @ [Returned (Inr already_initialized)]"]
    by (simp add: run_Cons run_Nil)
qed

subsection \<open>The small instance, run\<close>

lemma demo_initialize:
  "initialize demo_caps fresh_object demo_new_world [] =
     (Inr (success_result 1), demo_ready, demo_indexed_world, success_log demo_caps)"
  by (simp add: initialize_def initialize_try_except_def initialize_try_def Let_def
        SPEECH_FILE_def CHROMA_DB_DIR_def
        fresh_object_def demo_new_world_def demo_indexed_world_def demo_ready_def
        demo_retriever_def demo_chunk_def demo_speech_def success_result_def success_log_def
        demo_caps_def)

lemma demo_ask:
  "ask_question demo_caps demo_ready demo_question demo_indexed_world lg =
     (Inr demo_response, demo_ready, demo_asked_world,
      lg @ [Info (''Processing question: '' @ demo_question)])"
  by (simp add: ask_question_def ask_question_try_def qa_chain_invoke_def format_template
        format_docs_def Let_def demo_ready_def demo_retriever_def demo_indexed_world_def
        demo_asked_world_def demo_response_def demo_chunk_def demo_caps_def)

lemma demo_initialize_no_file:
  "initialize demo_caps fresh_object demo_no_file_world [] =
     (Inl (FileNotFoundError ''Speech file not found at /app/speech.txt''),
      fresh_object, demo_no_file_world,
      [Info ''Initializing RAG service...'',
       Error ''Failed to initialize RAG service: Speech file not found at /app/speech.txt''])"
  by (simp add: initialize_def initialize_try_except_def initialize_try_def Let_def
        SPEECH_FILE_def fresh_object_def demo_no_file_world_def demo_caps_def)

lemma demo_initialize_empty_indexed:
  "initialize demo_caps fresh_object demo_empty_indexed_world [] =
     (Inr (success_result 0), demo_ready, demo_empty_indexed_world, success_log demo_caps)"
  by (simp add: initialize_def initialize_try_except_def initialize_try_def Let_def
        SPEECH_FILE_def CHROMA_DB_DIR_def
        fresh_object_def demo_empty_indexed_world_def demo_ready_def
        demo_retriever_def demo_chunk_def demo_speech_def success_result_def success_log_def
        demo_caps_def)

lemma demo_initialize_empty_new:
  "initialize demo_caps fresh_object demo_empty_new_world [] =
     (Inl (ExternalError ''no documents''),
      fresh_object\<lparr>embeddings := Some ''sentence-transformers/all-MiniLM-L6-v2''\<rparr>,
      demo_empty_new_world,
      [Info ''Initializing RAG service...'',
       Info ''Loading speech from /app/speech.txt'',
       Info ''Splitting text into chunks'',
       Info ''Loading HuggingFace embeddings'',
       Info ''Setting up ChromaDB vector store'',
       Error ''Failed to initialize RAG service: no documents''])"
  by (simp add: initialize_def initialize_try_except_def initialize_try_def Let_def
        SPEECH_FILE_def CHROMA_DB_DIR_def
        fresh_object_def demo_empty_new_world_def demo_caps_def)

lemma fresh_object_not_initialized: "\<not> initialized fresh_object"
  by (simp add: fresh_object_def)

lemma demo_endpoint:
  "ask_question_endpoint demo_caps fresh_object demo_question demo_new_world [] =
     (OK demo_response, demo_ready, demo_asked_world,
      success_log demo_caps @ [Info (''Processing question: '' @ demo_question)])"
  by (simp add: ask_question_endpoint_def fresh_object_not_initialized demo_initialize demo_ask)



lemma demo_steps_empty:
  "path_exists demo_caps (SPEECH_FILE demo_caps) demo_empty_new_world"
  "TextLoader_load demo_caps (SPEECH_FILE demo_caps) demo_empty_new_world =
     (Inr [Document [] [(''source'', ''/app/speech.txt'')]], demo_empty_new_world)"
  "split_documents demo_caps 200 50 ''. '' [Document [] [(''source'', ''/app/speech.txt'')]] = Inr []"
  "HuggingFaceEmbeddings demo_caps ''sentence-transformers/all-MiniLM-L6-v2'' demo_empty_new_world =
     (Inr ''sentence-transformers/all-MiniLM-L6-v2'', demo_empty_new_world)"
  "\<not> path_exists demo_caps (CHROMA_DB_DIR demo_caps) demo_empty_new_world"
  "Chroma_from_documents demo_caps [] ''sentence-transformers/all-MiniLM-L6-v2''
     (CHROMA_DB_DIR demo_caps) demo_empty_new_world =
     (Inl (ExternalError ''no documents''), demo_empty_new_world)"
  by (simp_all add: SPEECH_FILE_def CHROMA_DB_DIR_def demo_caps_def demo_empty_new_world_def)

lemma demo_ready_parts:
  "initialized demo_ready" "retriever demo_ready = Some demo_retriever"
  "qa_chain demo_ready = Some \<lparr>chain_retriever = demo_retriever, chain_prompt = template,
                               chain_llm = ''mistral''\<rparr>"
  by (simp_all add: demo_ready_def)

lemma demo_searches:
  "retriever_invoke demo_caps demo_retriever demo_question demo_indexed_world =
     (Inr [demo_chunk], demo_indexed_world\<lparr>searches := 1\<rparr>)"
  "retriever_invoke demo_caps demo_retriever demo_question (demo_indexed_world\<lparr>searches := 1\<rparr>) =
     (Inr [demo_chunk], demo_asked_world)"
  "llm_invoke demo_caps ''mistral'' p demo_asked_world = (Inr p, demo_asked_world)"
  by (simp_all add: demo_caps_def demo_retriever_def demo_indexed_world_def demo_asked_world_def)

lemma picky_steps:
  "retriever_invoke picky_caps demo_retriever bad_question demo_indexed_world =
     (Inr [demo_chunk], demo_indexed_world\<lparr>searches := 1\<rparr>)"
  "retriever_invoke picky_caps demo_retriever bad_question (demo_indexed_world\<lparr>searches := 1\<rparr>) =
     (Inr [demo_chunk], demo_asked_world)"
  "llm_invoke picky_caps ''mistral'' (rendered_prompt (format_docs [demo_chunk]) bad_question)
     demo_asked_world = (Inl (RuntimeError ''model error''), demo_asked_world)"
  "retriever_invoke picky_caps demo_retriever demo_question demo_asked_world =
     (Inr [demo_chunk], demo_asked_world\<lparr>searches := 3\<rparr>)"
  "retriever_invoke picky_caps demo_retriever demo_question (demo_asked_world\<lparr>searches := 3\<rparr>) =
     (Inr [demo_chunk], demo_asked_twice_world)"
  "llm_invoke picky_caps ''mistral'' (rendered_prompt (format_docs [demo_chunk]) demo_question)
     demo_asked_twice_world =
     (Inr (rendered_prompt (format_docs [demo_chunk]) demo_question), demo_asked_twice_world)"
  by (simp_all add: picky_caps_def demo_caps_def demo_retriever_def demo_indexed_world_def
        demo_asked_world_def demo_asked_twice_world_def rendered_prompt_def
        demo_question_def bad_question_def)

lemma picky_try:
  "ask_question_try picky_caps demo_ready bad_question demo_indexed_world [] =
     (Inl (RuntimeError ''model error''), demo_asked_world,
      [] @ [Info (''Processing question: '' @ bad_question)])"
  by (rule ask_question_try_llm[OF demo_ready_parts(2) demo_ready_parts(3)
        picky_steps(1) picky_steps(2) picky_steps(3)])

lemma drifting_ask:
  "ask_question drifting_caps demo_ready demo_question four_chunk_world [] =
     (Inr \<lparr>question = demo_question,
           answer = rendered_prompt (format_docs [chunk_b, chunk_c, chunk_d]) demo_question,
           sources = [source_of chunk_a, source_of chunk_b, source_of chunk_c],
           sources_count = 3\<rparr>,
      demo_ready, four_chunk_world\<lparr>searches := 2\<rparr>,
      [Info (''Processing question: '' @ demo_question)])"
  by (simp add: ask_question_def ask_question_try_def qa_chain_invoke_def format_template
        Let_def demo_ready_def demo_retriever_def four_chunk_world_def source_of_def
        drifting_caps_def demo_caps_def numeral_3_eq_3)

lemma steady_ask:
  "ask_question demo_caps demo_ready demo_question four_chunk_world [] =
     (Inr \<lparr>question = demo_question,
           answer = rendered_prompt (format_docs [chunk_a, chunk_b, chunk_c]) demo_question,
           sources = [source_of chunk_a, source_of chunk_b, source_of chunk_c],
           sources_count = 3\<rparr>,
      demo_ready, four_chunk_world\<lparr>searches := 2\<rparr>,
      [Info (''Processing question: '' @ demo_question)])"
  by (simp add: ask_question_def ask_question_try_def qa_chain_invoke_def format_template
        Let_def demo_ready_def demo_retriever_def four_chunk_world_def source_of_def
        demo_caps_def numeral_3_eq_3)

lemma demo_construct:
  "RAGService (empty_heap :: (string, string, string) heap) =
     (0, \<lparr>objects = (\<lambda>a. None)(0 \<mapsto> fresh_object), instance_ref = Some 0, next_addr = 1\<rparr>)"
  by (simp add: RAGService_def RAGService_new_def RAGService_init_def empty_heap_def Let_def
        fresh_object_def)

lemma demo_call_initialize:
  "call_initialize demo_caps 0
     \<lparr>objects = (\<lambda>a. None)(0 \<mapsto> fresh_object), instance_ref = Some 0, next_addr = 1\<rparr>
     demo_new_world [] =
   (Inr (success_result 1),
    \<lparr>objects = (\<lambda>a. None)(0 \<mapsto> demo_ready), instance_ref = Some 0, next_addr = 1\<rparr>,
    demo_indexed_world, success_log demo_caps)"
  by (simp add: call_initialize_def demo_initialize)

lemma demo_head:
  "speech w = Some demo_speech \<Longrightarrow>
   initialize_try_head demo_caps s w lg =
     (Inr ([demo_chunk], ''sentence-transformers/all-MiniLM-L6-v2'', chroma_db w \<noteq> None),
      s\<lparr>embeddings := Some ''sentence-transformers/all-MiniLM-L6-v2''\<rparr>, w,
      lg @ head_log demo_caps)"
  by (simp add: initialize_try_head_def Let_def SPEECH_FILE_def CHROMA_DB_DIR_def
        demo_caps_def demo_chunk_def demo_speech_def head_log_def)

lemma demo_tail_build:
  "initialize_try_tail demo_caps [demo_chunk] emb False s w lg =
     (Inr (success_result 1),
      s\<lparr>vectorstore := Some ''/app/chroma_db'', llm := Some ''mistral'',
        retriever := Some demo_retriever, prompt := Some template,
        qa_chain := Some \<lparr>chain_retriever = demo_retriever, chain_prompt = template,
                          chain_llm = ''mistral''\<rparr>,
        initialized := True\<rparr>,
      w\<lparr>chroma_db := Some ((case chroma_db w of None \<Rightarrow> [] | Some ds \<Rightarrow> ds) @ [demo_chunk])\<rparr>,
      lg @ tail_log)"
  by (simp add: initialize_try_tail_def Let_def CHROMA_DB_DIR_def demo_caps_def
        demo_retriever_def success_result_def tail_log_def)

lemma racing_tests:
  "run demo_caps [0, 1] racing_system = racing_system\<lparr>callers := [InTry, InTry]\<rparr>"
  by (simp add: run_def step_def racing_system_def fresh_object_def)

lemma racing_heads:
  "run demo_caps [0, 1] (racing_system\<lparr>callers := [InTry, InTry]\<rparr>) =
     \<lparr>shared = fresh_object\<lparr>embeddings := Some ''sentence-transformers/all-MiniLM-L6-v2''\<rparr>,
      world = demo_new_world, logged = head_log demo_caps @ head_log demo_caps,
      callers = [AtStore [demo_chunk] ''sentence-transformers/all-MiniLM-L6-v2'' False,
                 AtStore [demo_chunk] ''sentence-transformers/all-MiniLM-L6-v2'' False]\<rparr>"
  by (simp add: run_def step_def racing_system_def demo_head demo_new_world_def)

lemma racing_tails:
  "run demo_caps [0, 1]
     \<lparr>shared = fresh_object\<lparr>embeddings := Some ''sentence-transformers/all-MiniLM-L6-v2''\<rparr>,
      world = demo_new_world, logged = head_log demo_caps @ head_log demo_caps,
      callers = [AtStore [demo_chunk] ''sentence-transformers/all-MiniLM-L6-v2'' False,
                 AtStore [demo_chunk] ''sentence-transformers/all-MiniLM-L6-v2'' False]\<rparr> =
     \<lparr>shared = demo_ready,
      world = \<lparr>speech = Some demo_speech, chroma_db = Some [demo_chunk, demo_chunk],
               searches = 0\<rparr>,
      logged = head_log demo_caps @ head_log demo_caps @ tail_log @ tail_log,
      callers = [Returned (Inr (success_result 1)), Returned (Inr (success_result 1))]\<rparr>"
  by (simp add: run_def step_def demo_tail_build demo_new_world_def fresh_object_def
        demo_ready_def)

lemma racing_run_all:
  "run demo_caps [0, 1, 0, 1, 0, 1] racing_system =
     \<lparr>shared = demo_ready,
      world = \<lparr>speech = Some demo_speech, chroma_db = Some [demo_chunk, demo_chunk],
               searches = 0\<rparr>,
      logged = head_log demo_caps @ head_log demo_caps @ tail_log @ tail_log,
      callers = [Returned (Inr (success_result 1)), Returned (Inr (success_result 1))]\<rparr>"
proof -
  have "run demo_caps [0, 1, 0, 1, 0, 1] racing_system =
        run demo_caps [0, 1] (run demo_caps [0, 1] (run demo_caps [0, 1] racing_system))"
    by (simp add: run_def)
  then show ?thesis by (simp only: racing_tests racing_heads racing_tails)
qed

subsection \<open>Idempotence of \<^verbatim>\<open>initialize\<close>\<close>

text \<open>
  C1. Once a call of \<^verbatim>\<open>initialize()\<close> has succeeded, the object is initialized, and
  every later call, in whatever world and with whatever log it is made, returns the
  ``already initialized'' result and gives back the object, the world and the log as they
  were: no capability is invoked (nothing is loaded, split, embedded or built), and the
  vector store, the retriever and the QA chain are the ones of the first call.
\<close>

theorem initialize_idempotent:
  assumes "initialize caps self0 w0 lg0 = (Inr r, self1, w1, lg1)"
  shows "initialized self1 \<and>
         (\<forall>w lg. initialize caps self1 w lg = (Inr already_initialized, self1, w, lg))"
  using initialize_Inr[OF assms] by (simp add: initialize_again)

theorem initialize_idempotent_witness:
  "initialize demo_caps fresh_object demo_new_world [] =
     (Inr (success_result 1), demo_ready, demo_indexed_world, success_log demo_caps) \<and>
   initialized demo_ready \<and>
   initialize demo_caps demo_ready demo_indexed_world (success_log demo_caps) =
     (Inr already_initialized, demo_ready, demo_indexed_world, success_log demo_caps)"
  using initialize_idempotent[OF demo_initialize] demo_initialize by simp

subsection \<open>A failed \<^verbatim>\<open>initialize\<close>\<close>

text \<open>
  C5, as the code has it. When \<^verbatim>\<open>initialize()\<close> fails, the error it raises is the one
  raised inside the \<^verbatim>\<open>try\<close> block, unchanged: the missing speech file, or the error of
  the loader, the splitter, the embedding model, the vector store or the language model.
  It is logged and raised again. The object has no state of failure: \<^verbatim>\<open>initialized\<close>
  was false before the call and is false after it, so \<^verbatim>\<open>get_status\<close> reports
  \<^verbatim>\<open>initialized: false\<close> after a failed initialization as it does before any
  initialization.
\<close>

theorem initialize_failure_reraised:
  assumes "initialize caps self w lg = (Inl e, self', w', lg')"
  shows "\<not> initialized self' \<and>
         (\<exists>l. initialize_try caps self w lg = (Inl e, self', w', l) \<and>
              lg' = l @ [Error (''Failed to initialize RAG service: '' @ str e)]) \<and>
         ((\<not> path_exists caps (SPEECH_FILE caps) w \<and>
            e = FileNotFoundError (''Speech file not found at '' @ SPEECH_FILE caps))
          \<or> (\<exists>w1. TextLoader_load caps (SPEECH_FILE caps) w = (Inl e, w1))
          \<or> (\<exists>docs. split_documents caps 200 50 ''. '' docs = Inl e)
          \<or> (\<exists>wa wb. HuggingFaceEmbeddings caps ''sentence-transformers/all-MiniLM-L6-v2'' wa
                        = (Inl e, wb))
          \<or> (\<exists>emb wa wb. Chroma caps (CHROMA_DB_DIR caps) emb wa = (Inl e, wb))
          \<or> (\<exists>texts emb wa wb.
                Chroma_from_documents caps texts emb (CHROMA_DB_DIR caps) wa = (Inl e, wb))
          \<or> (\<exists>wa wb. OllamaLLM caps ''mistral'' ''0.7'' ''http://localhost:11434'' wa
                        = (Inl e, wb))) \<and>
         status_initialized (get_status caps self' w') = False \<and>
         status_initialized (get_status caps self w) = False"
proof -
  from initialize_Inl[OF assms] obtain l where
    n: "\<not> initialized self" "\<not> initialized self'"
    and t: "initialize_try caps self w lg = (Inl e, self', w', l)"
    and l: "lg' = l @ [Error (''Failed to initialize RAG service: '' @ str e)]"
    by blast
  note c = initialize_try_cause[OF t]
  from n t l c show ?thesis by (simp add: get_status_def)
qed

theorem initialize_failure_reraised_witness:
  "initialize demo_caps fresh_object demo_no_file_world [] =
     (Inl (FileNotFoundError ''Speech file not found at /app/speech.txt''),
      fresh_object, demo_no_file_world,
      [Info ''Initializing RAG service...'',
       Error ''Failed to initialize RAG service: Speech file not found at /app/speech.txt'']) \<and>
   \<not> initialized (fresh_object :: (string, string, string) rag_service) \<and>
   status_initialized (get_status demo_caps fresh_object demo_no_file_world) = False"
proof -
  note t = initialize_failure_reraised[OF demo_initialize_no_file]
  note a = t[THEN conjunct1]
  note b = t[THEN conjunct2, THEN conjunct2, THEN conjunct2, THEN conjunct1]
  from a b demo_initialize_no_file show ?thesis by (intro conjI)
qed

text \<open>
  C5, as the claim states it, fails: with no speech file, \<^verbatim>\<open>initialize()\<close> fails, and
  the status read after the failure is the status read before any call.
\<close>

theorem failed_status_counterexample:
  "fst (initialize demo_caps fresh_object demo_no_file_world []) =
     Inl (FileNotFoundError ''Speech file not found at /app/speech.txt'') \<and>
   get_status demo_caps (fst (snd (initialize demo_caps fresh_object demo_no_file_world [])))
      (fst (snd (snd (initialize demo_caps fresh_object demo_no_file_world [])))) =
   get_status demo_caps fresh_object demo_no_file_world \<and>
   get_status demo_caps fresh_object demo_no_file_world =
     \<lparr>status_initialized = False, speech_file_exists = False, vector_db_exists = False\<rparr>"
  by (simp add: demo_initialize_no_file,
      simp add: get_status_def fresh_object_not_initialized
        SPEECH_FILE_def CHROMA_DB_DIR_def demo_caps_def demo_no_file_world_def)

subsection \<open>An error in \<^verbatim>\<open>ask_question\<close>\<close>

text \<open>
  C8. On an initialized service, an error raised inside the \<^verbatim>\<open>try\<close> block of
  \<^verbatim>\<open>ask_question\<close> is raised to the caller: the call returns that error, after the
  handler has logged it. On a service as \<^verbatim>\<open>initialize()\<close> assembles it this holds step by
  step: an error of the first retrieval, of the retrieval inside the chain, or of the
  language model is the error the caller gets. No call of \<^verbatim>\<open>ask_question\<close>, failed or
  not, changes the object: \<^verbatim>\<open>initialized\<close>, the vector store, the retriever and the QA
  chain are the ones it was called on. An error the caller gets on an initialized service
  is the one raised inside the \<^verbatim>\<open>try\<close> block. And after a failed call the next question,
  asked in the world and with the log the failed call left, is answered as usual whenever
  its own retrievals and its own call of the language model succeed.
\<close>

theorem ask_question_error_keeps_state:
  "(initialized self \<and> ask_question_try caps self q w lg = (Inl e, wt, lgt) \<longrightarrow>
      ask_question caps self q w lg =
        (Inl e, self, wt, lgt @ [Error (''Error processing question: '' @ str e)])) \<and>
   (initialized self \<and> retriever self = Some r \<and>
    qa_chain self = Some \<lparr>chain_retriever = r, chain_prompt = template, chain_llm = l\<rparr> \<longrightarrow>
      (retriever_invoke caps r q w = (Inl e, w1) \<longrightarrow>
         ask_question caps self q w lg =
           (Inl e, self, w1, lg @ [Info (''Processing question: '' @ q),
                                   Error (''Error processing question: '' @ str e)])) \<and>
      (retriever_invoke caps r q w = (Inr docs1, w1) \<and>
       retriever_invoke caps r q w1 = (Inl e, w2) \<longrightarrow>
         ask_question caps self q w lg =
           (Inl e, self, w2, lg @ [Info (''Processing question: '' @ q),
                                   Error (''Error processing question: '' @ str e)])) \<and>
      (retriever_invoke caps r q w = (Inr docs1, w1) \<and>
       retriever_invoke caps r q w1 = (Inr docs2, w2) \<and>
       llm_invoke caps l (rendered_prompt (format_docs docs2) q) w2 = (Inl e, w3) \<longrightarrow>
         ask_question caps self q w lg =
           (Inl e, self, w3, lg @ [Info (''Processing question: '' @ q),
                                   Error (''Error processing question: '' @ str e)])) \<and>
      (ask_question caps self q w lg = (Inl e, self', w', lg') \<and>
       retriever_invoke caps r q2 w' = (Inr docs3, w4) \<and>
       retriever_invoke caps r q2 w4 = (Inr docs4, w5) \<and>
       llm_invoke caps l (rendered_prompt (format_docs docs4) q2) w5 = (Inr a, w6) \<longrightarrow>
         ask_question caps self' q2 w' lg' =
           (Inr \<lparr>question = q2, answer = a, sources = map source_of docs3,
                 sources_count = length docs3\<rparr>,
            self', w6, lg' @ [Info (''Processing question: '' @ q2)]))) \<and>
   (ask_question caps self q w lg = (res, self', w', lg') \<longrightarrow> self' = self) \<and>
   (ask_question caps self q w lg = (Inl e, self', w', lg') \<longrightarrow>
      self' = self \<and>
      (initialized self \<longrightarrow>
         fst (ask_question_try caps self q w lg) = Inl e \<and>
         lg' = lg @ [Info (''Processing question: '' @ q),
                     Error (''Error processing question: '' @ str e)]) \<and>
      (\<forall>q2 w2 lg2. ask_question caps self' q2 w2 lg2 = ask_question caps self q2 w2 lg2))"
proof (intro conjI impI)
  assume "initialized self \<and> ask_question_try caps self q w lg = (Inl e, wt, lgt)"
  then show "ask_question caps self q w lg =
        (Inl e, self, wt, lgt @ [Error (''Error processing question: '' @ str e)])"
    by (simp add: ask_question_surfaces)
next
  assume a: "initialized self \<and> retriever self = Some r \<and>
    qa_chain self = Some \<lparr>chain_retriever = r, chain_prompt = template, chain_llm = l\<rparr>"
    and b: "retriever_invoke caps r q w = (Inl e, w1)"
  from a b show "ask_question caps self q w lg =
           (Inl e, self, w1, lg @ [Info (''Processing question: '' @ q),
                                   Error (''Error processing question: '' @ str e)])"
    by (simp add: ask_question_surfaces ask_question_try_first_retrieval)
next
  assume a: "initialized self \<and> retriever self = Some r \<and>
    qa_chain self = Some \<lparr>chain_retriever = r, chain_prompt = template, chain_llm = l\<rparr>"
    and b: "retriever_invoke caps r q w = (Inr docs1, w1) \<and>
       retriever_invoke caps r q w1 = (Inl e, w2)"
  from a b have "ask_question_try caps self q w lg =
      (Inl e, w2, lg @ [Info (''Processing question: '' @ q)])"
    by (blast intro: ask_question_try_second_retrieval)
  with a show "ask_question caps self q w lg =
           (Inl e, self, w2, lg @ [Info (''Processing question: '' @ q),
                                   Error (''Error processing question: '' @ str e)])"
    by (simp add: ask_question_surfaces)
next
  assume a: "initialized self \<and> retriever self = Some r \<and>
    qa_chain self = Some \<lparr>chain_retriever = r, chain_prompt = template, chain_llm = l\<rparr>"
    and b: "retriever_invoke caps r q w = (Inr docs1, w1) \<and>
       retriever_invoke caps r q w1 = (Inr docs2, w2) \<and>
       llm_invoke caps l (rendered_prompt (format_docs docs2) q) w2 = (Inl e, w3)"
  from a b have "ask_question_try caps self q w lg =
      (Inl e, w3, lg @ [Info (''Processing question: '' @ q)])"
    by (blast intro: ask_question_try_llm)
  with a show "ask_question caps self q w lg =
           (Inl e, self, w3, lg @ [Info (''Processing question: '' @ q),
                                   Error (''Error processing question: '' @ str e)])"
    by (simp add: ask_question_surfaces)
next
  assume a: "initialized self \<and> retriever self = Some r \<and>
    qa_chain self = Some \<lparr>chain_retriever = r, chain_prompt = template, chain_llm = l\<rparr>"
    and b: "ask_question caps self q w lg = (Inl e, self', w', lg') \<and>
       retriever_invoke caps r q2 w' = (Inr docs3, w4) \<and>
       retriever_invoke caps r q2 w4 = (Inr docs4, w5) \<and>
       llm_invoke caps l (rendered_prompt (format_docs docs4) q2) w5 = (Inr a, w6)"
  from b have same: "self' = self" by (auto dest: ask_question_state)
  from a b show "ask_question caps self' q2 w' lg' =
           (Inr \<lparr>question = q2, answer = a, sources = map source_of docs3,
                 sources_count = length docs3\<rparr>,
            self', w6, lg' @ [Info (''Processing question: '' @ q2)])"
    unfolding same by (blast intro: ask_question_answers)
next
  assume "ask_question caps self q w lg = (res, self', w', lg')"
  then show "self' = self" by (rule ask_question_state)
next
  assume "ask_question caps self q w lg = (Inl e, self', w', lg')"
  then show "self' = self" by (rule ask_question_state)
next
  assume a: "ask_question caps self q w lg = (Inl e, self', w', lg')" and i: "initialized self"
  from a i show "fst (ask_question_try caps self q w lg) = Inl e"
    by (auto simp: ask_question_def split: prod.splits sum.splits)
next
  assume a: "ask_question caps self q w lg = (Inl e, self', w', lg')" and i: "initialized self"
  from a i show "lg' = lg @ [Info (''Processing question: '' @ q),
                     Error (''Error processing question: '' @ str e)]"
    by (auto simp: ask_question_def split: prod.splits sum.splits dest: ask_question_try_log)
next
  assume "ask_question caps self q w lg = (Inl e, self', w', lg')"
  then have "self' = self" by (rule ask_question_state)
  then show "\<forall>q2 w2 lg2. ask_question caps self' q2 w2 lg2 = ask_question caps self q2 w2 lg2"
    by simp
qed

theorem ask_question_error_keeps_state_witness:
  "initialized demo_ready \<and>
   ask_question_try picky_caps demo_ready bad_question demo_indexed_world [] =
     (Inl (RuntimeError ''model error''), demo_asked_world,
      [Info (''Processing question: '' @ bad_question)]) \<and>
   ask_question picky_caps demo_ready bad_question demo_indexed_world [] =
     (Inl (RuntimeError ''model error''), demo_ready, demo_asked_world,
      [Info (''Processing question: '' @ bad_question),
       Error ''Error processing question: model error'']) \<and>
   ask_question picky_caps demo_ready demo_question demo_asked_world
     [Info (''Processing question: '' @ bad_question),
      Error ''Error processing question: model error''] =
     (Inr \<lparr>question = demo_question,
           answer = rendered_prompt (format_docs [demo_chunk]) demo_question,
           sources = map source_of [demo_chunk], sources_count = length [demo_chunk]\<rparr>,
      demo_ready, demo_asked_twice_world,
      [Info (''Processing question: '' @ bad_question),
       Error ''Error processing question: model error'',
       Info (''Processing question: '' @ demo_question)])"
proof -
  have tried: "ask_question_try picky_caps demo_ready bad_question demo_indexed_world [] =
     (Inl (RuntimeError ''model error''), demo_asked_world,
      [Info (''Processing question: '' @ bad_question)])"
    using picky_try by simp
  have "initialized demo_ready \<and>
        ask_question_try picky_caps demo_ready bad_question demo_indexed_world [] =
          (Inl (RuntimeError ''model error''), demo_asked_world,
           [Info (''Processing question: '' @ bad_question)])"
    using demo_ready_parts(1) tried by (rule conjI)
  from ask_question_error_keeps_state[THEN conjunct1, THEN mp, OF this]
  have failed: "ask_question picky_caps demo_ready bad_question demo_indexed_world [] =
     (Inl (RuntimeError ''model error''), demo_ready, demo_asked_world,
      [Info (''Processing question: '' @ bad_question),
       Error ''Error processing question: model error''])"
    by simp
  have assembled: "initialized demo_ready \<and> retriever demo_ready = Some demo_retriever \<and>
    qa_chain demo_ready = Some \<lparr>chain_retriever = demo_retriever, chain_prompt = template,
                                chain_llm = ''mistral''\<rparr>"
    using demo_ready_parts by (intro conjI)
  have later: "ask_question picky_caps demo_ready bad_question demo_indexed_world [] =
     (Inl (RuntimeError ''model error''), demo_ready, demo_asked_world,
      [Info (''Processing question: '' @ bad_question),
       Error ''Error processing question: model error'']) \<and>
    retriever_invoke picky_caps demo_retriever demo_question demo_asked_world =
     (Inr [demo_chunk], demo_asked_world\<lparr>searches := 3\<rparr>) \<and>
    retriever_invoke picky_caps demo_retriever demo_question (demo_asked_world\<lparr>searches := 3\<rparr>) =
     (Inr [demo_chunk], demo_asked_twice_world) \<and>
    llm_invoke picky_caps ''mistral'' (rendered_prompt (format_docs [demo_chunk]) demo_question)
     demo_asked_twice_world =
     (Inr (rendered_prompt (format_docs [demo_chunk]) demo_question), demo_asked_twice_world)"
    using failed picky_steps(4) picky_steps(5) picky_steps(6) by (intro conjI)
  note d = ask_question_error_keeps_state[THEN conjunct2, THEN conjunct1, THEN mp,
      OF assembled, THEN conjunct2, THEN conjunct2, THEN conjunct2, THEN mp, OF later]
  have answered: "ask_question picky_caps demo_ready demo_question demo_asked_world
     [Info (''Processing question: '' @ bad_question),
      Error ''Error processing question: model error''] =
     (Inr \<lparr>question = demo_question,
           answer = rendered_prompt (format_docs [demo_chunk]) demo_question,
           sources = map source_of [demo_chunk], sources_count = length [demo_chunk]\<rparr>,
      demo_ready, demo_asked_twice_world,
      [Info (''Processing question: '' @ bad_question),
       Error ''Error processing question: model error'',
       Info (''Processing question: '' @ demo_question)])"
    using d by simp
  from demo_ready_parts(1) tried failed answered show ?thesis by (intro conjI)
qed

subsection \<open>Questions before initialization\<close>

text \<open>
  C3. On a service that is not initialized, \<^verbatim>\<open>ask_question\<close> raises the not-ready error
  (a \<^verbatim>\<open>RuntimeError\<close>) and changes nothing. The endpoint \<^verbatim>\<open>POST /api/ambedkar/ask\<close>
  then runs exactly one initialization before it asks: the log gains exactly one
  ``Initializing RAG service...'' entry. An answer it returns is the result of
  \<^verbatim>\<open>ask_question\<close> on the service that this initialization made ready; when the
  initialization or the question fails, the response is an HTTP error (503 or 500), never
  an answer.
\<close>

theorem ask_before_initialize:
  assumes "\<not> initialized self"
  shows "ask_question caps self q w lg =
           (Inl (RuntimeError ''RAG service not initialized. Call initialize() first.''),
            self, w, lg) \<and>
         (case ask_question_endpoint caps self q w lg of
            (resp, self', w', lg') \<Rightarrow>
              count_list lg' (Info ''Initializing RAG service...'') =
                Suc (count_list lg (Info ''Initializing RAG service...'')) \<and>
              (case resp of
                 OK result \<Rightarrow>
                   initialized self' \<and>
                   (\<exists>r self1 w1 lg1.
                      initialize caps self w lg = (Inr r, self1, w1, lg1) \<and>
                      ask_question caps self1 q w1 lg1 = (Inr result, self', w', lg'))
               | HTTPException code detail \<Rightarrow> code = 503 \<or> code = 500))"
proof -
  have first: "ask_question caps self q w lg =
           (Inl (RuntimeError ''RAG service not initialized. Call initialize() first.''),
            self, w, lg)"
    using assms by (simp add: ask_question_def)
  obtain r self1 w1 lg1 where init: "initialize caps self w lg = (r, self1, w1, lg1)"
    by (metis prod_cases4)
  note c1 = initialize_log_count[OF assms init]
  have "case ask_question_endpoint caps self q w lg of
            (resp, self', w', lg') \<Rightarrow>
              count_list lg' (Info ''Initializing RAG service...'') =
                Suc (count_list lg (Info ''Initializing RAG service...'')) \<and>
              (case resp of
                 OK result \<Rightarrow>
                   initialized self' \<and>
                   (\<exists>r self1 w1 lg1.
                      initialize caps self w lg = (Inr r, self1, w1, lg1) \<and>
                      ask_question caps self1 q w1 lg1 = (Inr result, self', w', lg'))
               | HTTPException code detail \<Rightarrow> code = 503 \<or> code = 500)"
  proof (cases r)
    case (Inl e)
    obtain resp lg2 where ex: "ask_question_except e lg1 = (resp, lg2)"
      by (cases "ask_question_except e lg1")
    have "\<exists>c d. resp = HTTPException c d \<and> (c = 503 \<or> c = 500)"
      using ex by (cases e) auto
    then show ?thesis
      using assms init Inl ex c1 ask_question_except_log_count[OF ex]
      by (auto simp: ask_question_endpoint_def)
  next
    case (Inr res)
    have i1: "initialized self1" using init Inr by (auto dest: initialize_Inr)
    obtain ar self2 w2 lg2 where ask: "ask_question caps self1 q w1 lg1 = (ar, self2, w2, lg2)"
      by (metis prod_cases4)
    have s2: "self2 = self1" using ask by (rule ask_question_state)
    note c2 = ask_question_log_count[OF ask]
    show ?thesis
    proof (cases ar)
      case (Inl e)
      obtain resp lg3 where ex: "ask_question_except e lg2 = (resp, lg3)"
        by (cases "ask_question_except e lg2")
      have "\<exists>c d. resp = HTTPException c d \<and> (c = 503 \<or> c = 500)"
        using ex by (cases e) auto
      then show ?thesis
        using assms init Inr ask Inl ex c1 c2 ask_question_except_log_count[OF ex]
        by (auto simp: ask_question_endpoint_def)
    next
      case (Inr result)
      then show ?thesis
        using assms init \<open>r = Inr res\<close> ask c1 c2 i1 s2
        by (auto simp: ask_question_endpoint_def)
    qed
  qed
  with first show ?thesis by blast
qed

theorem ask_before_initialize_witness:
  "\<not> initialized (fresh_object :: (string, string, string) rag_service) \<and>
   ask_question demo_caps fresh_object demo_question demo_new_world [] =
     (Inl (RuntimeError ''RAG service not initialized. Call initialize() first.''),
      fresh_object, demo_new_world, []) \<and>
   ask_question_endpoint demo_caps fresh_object demo_question demo_new_world [] =
     (OK demo_response, demo_ready, demo_asked_world,
      success_log demo_caps @ [Info (''Processing question: '' @ demo_question)]) \<and>
   count_list (success_log demo_caps @ [Info (''Processing question: '' @ demo_question)])
     (Info ''Initializing RAG service...'') = Suc (count_list [] (Info ''Initializing RAG service...'')) \<and>
   initialized demo_ready"
proof -
  note t = ask_before_initialize[OF fresh_object_not_initialized,
      of demo_caps demo_question demo_new_world "[]"]
  note a = t[THEN conjunct1]
  from t[THEN conjunct2]
  have b: "count_list (success_log demo_caps @ [Info (''Processing question: '' @ demo_question)])
     (Info ''Initializing RAG service...'') = Suc (count_list [] (Info ''Initializing RAG service...'')) \<and>
     initialized demo_ready"
    unfolding demo_endpoint by simp
  from a b demo_endpoint fresh_object_not_initialized show ?thesis by blast
qed

subsection \<open>Reuse or rebuild of the index\<close>



subsection \<open>An empty document\<close>

text \<open>
  C7, as the code has it. When the splitter returns no chunk, \<^verbatim>\<open>initialize()\<close> makes no
  test of its own and goes on. If the index directory exists and the remaining steps
  succeed, the call succeeds with \<^verbatim>\<open>chunks_count\<close> 0 and the service is initialized. If
  the directory does not exist, the index is built from no chunks; if that raises, the
  error is raised to the caller, \<^verbatim>\<open>initialized\<close> stays false and \<^verbatim>\<open>get_status\<close> reports
  \<^verbatim>\<open>initialized: false\<close>.
\<close>

theorem initialize_without_chunks:
  assumes "\<not> initialized self"
    and "path_exists caps (SPEECH_FILE caps) w"
    and "TextLoader_load caps (SPEECH_FILE caps) w = (Inr documents, w1)"
    and "split_documents caps 200 50 ''. '' documents = Inr []"
    and "HuggingFaceEmbeddings caps ''sentence-transformers/all-MiniLM-L6-v2'' w1 = (Inr emb, w2)"
  shows "(path_exists caps (CHROMA_DB_DIR caps) w2 \<and>
          Chroma caps (CHROMA_DB_DIR caps) emb w2 = (Inr vs, w3) \<and>
          OllamaLLM caps ''mistral'' ''0.7'' ''http://localhost:11434'' w3 = (Inr l, w4) \<longrightarrow>
            (\<exists>self' lg'. initialize caps self w lg = (Inr (success_result 0), self', w4, lg') \<and>
               initialized self' \<and> status_initialized (get_status caps self' w4))) \<and>
         (\<not> path_exists caps (CHROMA_DB_DIR caps) w2 \<and>
          Chroma_from_documents caps [] emb (CHROMA_DB_DIR caps) w2 = (Inl e, w3) \<longrightarrow>
            (\<exists>self' lg'. initialize caps self w lg = (Inl e, self', w3, lg') \<and>
               \<not> initialized self' \<and> \<not> status_initialized (get_status caps self' w3)))"
  using assms
  by (auto simp: initialize_def initialize_try_except_def initialize_try_def Let_def
        success_result_def get_status_def)

theorem initialize_without_chunks_witness:
  "\<not> initialized (fresh_object :: (string, string, string) rag_service) \<and>
   split_documents demo_caps 200 50 ''. '' [Document [] [(''source'', ''/app/speech.txt'')]] = Inr [] \<and>
   \<not> path_exists demo_caps (CHROMA_DB_DIR demo_caps) demo_empty_new_world \<and>
   fst (initialize demo_caps fresh_object demo_empty_new_world []) =
     Inl (ExternalError ''no documents'') \<and>
   \<not> initialized (fst (snd (initialize demo_caps fresh_object demo_empty_new_world [])))"
proof -
  note t = initialize_without_chunks[OF fresh_object_not_initialized
      demo_steps_empty(1) demo_steps_empty(2) demo_steps_empty(3) demo_steps_empty(4),
      where e = "ExternalError ''no documents''" and ?w3.0 = demo_empty_new_world
        and lg = "[]"]
  from t[THEN conjunct2] demo_steps_empty(5) demo_steps_empty(6)
  have "\<exists>self' lg'. initialize demo_caps fresh_object demo_empty_new_world [] =
      (Inl (ExternalError ''no documents''), self', demo_empty_new_world, lg') \<and>
               \<not> initialized self'"
    by blast
  then have "fst (initialize demo_caps fresh_object demo_empty_new_world []) =
     Inl (ExternalError ''no documents'') \<and>
   \<not> initialized (fst (snd (initialize demo_caps fresh_object demo_empty_new_world [])))"
    by auto
  with demo_steps_empty(3) demo_steps_empty(5) fresh_object_not_initialized
  show ?thesis by blast
qed

text \<open>
  C7, as the claim states it, fails: with an empty speech file and an index directory
  that exists, the splitter returns no chunk, and \<^verbatim>\<open>initialize()\<close> succeeds with
  \<^verbatim>\<open>chunks_count\<close> 0; the status then reports \<^verbatim>\<open>initialized: true\<close>.
\<close>

theorem empty_document_counterexample:
  "split_documents demo_caps 200 50 ''. '' [Document [] [(''source'', ''/app/speech.txt'')]] = Inr [] \<and>
   initialize demo_caps fresh_object demo_empty_indexed_world [] =
     (Inr (success_result 0), demo_ready, demo_empty_indexed_world, success_log demo_caps) \<and>
   status_initialized (get_status demo_caps demo_ready demo_empty_indexed_world) = True"
  by (simp add: demo_initialize_empty_indexed demo_steps_empty(3),
      simp add: get_status_def demo_ready_def)

subsection \<open>Sources and context of an answer\<close>

text \<open>
  C2, as the code has it. On a service as \<^verbatim>\<open>initialize()\<close> assembles it (the chain holds
  the retriever of the service, the template and the language model), \<^verbatim>\<open>ask_question\<close>
  invokes the retriever twice with the same question: the first invocation, in the world
  \<open>w\<close>, gives the documents \<open>docs1\<close> that become the returned sources; the second, made
  inside the QA chain in the world \<open>w1\<close> the first one left, gives the documents \<open>docs2\<close>
  whose texts are joined into the context of the prompt. The sources are the chunks that
  grounded the answer exactly when both invocations return the same documents.
  \<^verbatim>\<open>AmbedkarQA.ask\<close> of the command-line program does the same.
\<close>

theorem ask_question_two_retrievals:
  assumes "initialized self"
    and "retriever self = Some r"
    and "qa_chain self = Some \<lparr>chain_retriever = r, chain_prompt = template, chain_llm = l\<rparr>"
    and "retriever_invoke caps r q w = (Inr docs1, w1)"
    and "retriever_invoke caps r q w1 = (Inr docs2, w2)"
    and "llm_invoke caps l (rendered_prompt (format_docs docs2) q) w2 = (Inr a, w3)"
  shows "ask_question caps self q w lg =
           (Inr \<lparr>question = q, answer = a, sources = map source_of docs1,
                 sources_count = length docs1\<rparr>,
            self, w3, lg @ [Info (''Processing question: '' @ q)]) \<and>
         ask caps self q w = (Inr (a, docs1), w3)"
  using assms
  by (simp add: ask_question_def ask_question_try_def ask_def qa_chain_invoke_def
        format_template Let_def source_of_def)

theorem ask_question_two_retrievals_witness:
  "initialized demo_ready \<and>
   retriever_invoke demo_caps demo_retriever demo_question demo_indexed_world =
     (Inr [demo_chunk], demo_indexed_world\<lparr>searches := 1\<rparr>) \<and>
   retriever_invoke demo_caps demo_retriever demo_question (demo_indexed_world\<lparr>searches := 1\<rparr>) =
     (Inr [demo_chunk], demo_asked_world) \<and>
   ask_question demo_caps demo_ready demo_question demo_indexed_world [] =
     (Inr \<lparr>question = demo_question,
           answer = rendered_prompt (format_docs [demo_chunk]) demo_question,
           sources = map source_of [demo_chunk], sources_count = length [demo_chunk]\<rparr>,
      demo_ready, demo_asked_world, [] @ [Info (''Processing question: '' @ demo_question)])"
  using ask_question_two_retrievals[OF demo_ready_parts demo_searches(1) demo_searches(2)
      demo_searches(3), of "[]"] demo_ready_parts(1) demo_searches(1) demo_searches(2)
  by blast

text \<open>
  C2, as the claim states it, fails. There is a second, separate retrieval: after one
  question the world has counted two searches, also on an index that holds still. On an
  index whose ranking moves between the two searches, the sources returned are the chunks
  a, b, c while the context the language model was given (echoed in the answer) is made of
  the chunks b, c, d.
\<close>

theorem second_retrieval_counterexample:
  "ask_question drifting_caps demo_ready demo_question four_chunk_world [] =
     (Inr \<lparr>question = demo_question,
           answer = rendered_prompt (format_docs [chunk_b, chunk_c, chunk_d]) demo_question,
           sources = [source_of chunk_a, source_of chunk_b, source_of chunk_c],
           sources_count = 3\<rparr>,
      demo_ready, four_chunk_world\<lparr>searches := 2\<rparr>,
      [Info (''Processing question: '' @ demo_question)]) \<and>
   [source_of chunk_b, source_of chunk_c, source_of chunk_d] \<noteq>
     [source_of chunk_a, source_of chunk_b, source_of chunk_c] \<and>
   searches (fst (snd (snd (ask_question demo_caps demo_ready demo_question
                              four_chunk_world [])))) = 2"
  by (simp add: drifting_ask steady_ask,
      simp add: source_of_def chunk_a_def chunk_b_def four_chunk_world_def)

subsection \<open>The separator of the context\<close>

text \<open>
  C4. The chain retrieves with \<open>k = 3\<close>, joins the texts of the chunks in the order of
  retrieval, formats the template with context and question, and returns the output of
  the language model as it is. The claim says the texts are joined by a double line break;
  \<^verbatim>\<open>format_docs\<close> joins them with the literal \<^verbatim>\<open>"\\n\\n"\<close>, which in Python is the four
  characters backslash, n, backslash, n. For the chunks a, b, c the context holds these
  characters between the texts, not two line feeds, and this context is what the language
  model receives (the echoing model returns it in the answer).
\<close>

theorem format_docs_literal_separator:
  "format_docs [chunk_a, chunk_b, chunk_c] =
     ''Caste is not just a division of labour'' @ [CHR 0x5C, CHR ''n'', CHR 0x5C, CHR ''n''] @
     ''It is a division of labourers'' @ [CHR 0x5C, CHR ''n'', CHR 0x5C, CHR ''n''] @
     ''This is harmful to society'' \<and>
   format_docs [chunk_a, chunk_b, chunk_c] \<noteq>
     ''Caste is not just a division of labour'' @ [CHR 0x0A, CHR 0x0A] @
     ''It is a division of labourers'' @ [CHR 0x0A, CHR 0x0A] @
     ''This is harmful to society'' \<and>
   answer (projr (fst (ask_question demo_caps demo_ready demo_question four_chunk_world []))) =
     rendered_prompt (format_docs [chunk_a, chunk_b, chunk_c]) demo_question"
  by (simp add: steady_ask,
      simp add: format_docs_def format_docs_separator_def backslash_def
        chunk_a_def chunk_b_def chunk_c_def)

subsection \<open>The singleton\<close>

text \<open>
  C10. Let a first call of \<^verbatim>\<open>RAGService()\<close> return the object at address \<open>a\<close> (for the
  module, the call that defines \<^verbatim>\<open>rag_service\<close>). After any number \<open>n\<close> of further calls,
  one more call returns the same address \<open>a\<close>: there is one instance. And when
  \<^verbatim>\<open>initialize()\<close> has succeeded on it, the object is initialized and a further call of
  \<^verbatim>\<open>RAGService()\<close>, or any number \<open>m\<close> of them, leaves the whole heap as it is: the flag,
  the vector store, the QA chain and every other attribute of the instance are kept.
\<close>

theorem singleton_instance:
  assumes "RAGService h0 = (a, h1)"
  shows "fst (RAGService (construct_times n h1)) = a \<and>
         (call_initialize caps a (construct_times n h1) w lg = (Inr r, h2, w', lg') \<longrightarrow>
            RAGService h2 = (a, h2) \<and> construct_times m h2 = h2 \<and>
            (\<exists>obj. objects h2 a = Some obj \<and> initialized obj))"
proof -
  have i1: "instance_ref h1 = Some a" using assms by (rule RAGService_instance_ref)
  then have in1: "instance_ref (construct_times n h1) = Some a"
    by (rule construct_times_instance_ref)
  then have first: "fst (RAGService (construct_times n h1)) = a" by (rule RAGService_same)
  have "RAGService h2 = (a, h2) \<and> construct_times m h2 = h2 \<and>
            (\<exists>obj. objects h2 a = Some obj \<and> initialized obj)"
    if c: "call_initialize caps a (construct_times n h1) w lg = (Inr r, h2, w', lg')"
  proof -
    from call_initialize_Inr[OF c] in1 obtain obj where
      "instance_ref h2 = Some a" "objects h2 a = Some obj" "initialized obj" by auto
    then show ?thesis
      by (auto simp: RAGService_initialized construct_times_initialized)
  qed
  with first show ?thesis by blast
qed

theorem singleton_instance_witness:
  "RAGService (empty_heap :: (string, string, string) heap) =
     (0, \<lparr>objects = (\<lambda>a. None)(0 \<mapsto> fresh_object), instance_ref = Some 0, next_addr = 1\<rparr>) \<and>
   fst (RAGService (construct_times 0
     \<lparr>objects = (\<lambda>a. None)(0 \<mapsto> (fresh_object :: (string, string, string) rag_service)),
      instance_ref = Some 0, next_addr = 1\<rparr>)) = 0 \<and>
   RAGService \<lparr>objects = (\<lambda>a. None)(0 \<mapsto> demo_ready), instance_ref = Some 0, next_addr = 1\<rparr> =
     (0, \<lparr>objects = (\<lambda>a. None)(0 \<mapsto> demo_ready), instance_ref = Some 0, next_addr = 1\<rparr>)"
proof -
  note t = singleton_instance[OF demo_construct, of 0 demo_caps demo_new_world "[]"
      "success_result 1"
      "\<lparr>objects = (\<lambda>a. None)(0 \<mapsto> demo_ready), instance_ref = Some 0, next_addr = 1\<rparr>"
      demo_indexed_world "success_log demo_caps" 0]
  from t[THEN conjunct2] demo_call_initialize
  have "RAGService \<lparr>objects = (\<lambda>a. None)(0 \<mapsto> demo_ready), instance_ref = Some 0, next_addr = 1\<rparr> =
     (0, \<lparr>objects = (\<lambda>a. None)(0 \<mapsto> demo_ready), instance_ref = Some 0, next_addr = 1\<rparr>)"
    by simp
  with t[THEN conjunct1] demo_construct show ?thesis by blast
qed

subsection \<open>Several callers of \<^verbatim>\<open>initialize\<close>\<close>

text \<open>
  C9, as the code has it. \<^verbatim>\<open>initialize()\<close> holds no lock; its only guard is the flag
  \<^verbatim>\<open>initialized\<close>, read on entry and set by the last assignment of a successful build.
  When \<open>n + 1\<close> callers run one after another, each to its return before the next one starts,
  and the call of the first succeeds, there is exactly one build: the first caller gets
  its result, every other caller gets ``already initialized'' at once, and the object, the
  world and the log are the ones the single call of the first left. Callers that overlap
  are not kept apart: two callers that both read the flag before a build has set it are
  inside the \<^verbatim>\<open>try\<close> block together.
\<close>

theorem callers_one_after_another:
  assumes "\<not> initialized self0"
    and "initialize caps self0 w0 lg0 = (Inr r, self1, w1, lg1)"
  shows "run caps (one_after_another 0 (Suc n))
           \<lparr>shared = self0, world = w0, logged = lg0, callers = replicate (Suc n) AtEntry\<rparr> =
         \<lparr>shared = self1, world = w1, logged = lg1,
          callers = Returned (Inr r) # replicate n (Returned (Inr already_initialized))\<rparr> \<and>
         callers (run caps [0, 1]
           \<lparr>shared = self0, world = w0, logged = lg0,
            callers = replicate (Suc (Suc n)) AtEntry\<rparr>) =
         InTry # InTry # replicate n AtEntry"
proof -
  have first: "run caps [0, 0, 0]
          \<lparr>shared = self0, world = w0, logged = lg0, callers = replicate (Suc n) AtEntry\<rparr> =
        \<lparr>shared = self1, world = w1, logged = lg1,
         callers = [Returned (Inr r)] @ replicate n AtEntry\<rparr>"
    using three_steps[of 0 "replicate (Suc n) AtEntry" caps self0 w0 lg0] assms(2) by simp
  have i: "initialized self1" using assms(2) by (rule initialize_Inr)
  have "run caps (one_after_another 0 (Suc n))
           \<lparr>shared = self0, world = w0, logged = lg0, callers = replicate (Suc n) AtEntry\<rparr> =
        run caps (one_after_another (Suc 0) n)
           (run caps [0, 0, 0]
              \<lparr>shared = self0, world = w0, logged = lg0, callers = replicate (Suc n) AtEntry\<rparr>)"
    by (simp add: run_Cons run_Nil)
  also have "\<dots> = \<lparr>shared = self1, world = w1, logged = lg1,
          callers = [Returned (Inr r)] @ replicate n (Returned (Inr already_initialized))\<rparr>"
    unfolding first using later_callers[OF i, of caps "[Returned (Inr r)]" n w1 lg1] by simp
  finally have sequential: "run caps (one_after_another 0 (Suc n))
           \<lparr>shared = self0, world = w0, logged = lg0, callers = replicate (Suc n) AtEntry\<rparr> =
         \<lparr>shared = self1, world = w1, logged = lg1,
          callers = Returned (Inr r) # replicate n (Returned (Inr already_initialized))\<rparr>"
    by simp
  have overlap: "callers (run caps [0, 1]
           \<lparr>shared = self0, world = w0, logged = lg0,
            callers = replicate (Suc (Suc n)) AtEntry\<rparr>) =
         InTry # InTry # replicate n AtEntry"
    using assms(1) by (simp add: run_Cons run_Nil step_def)
  from sequential overlap show ?thesis by (rule conjI)
qed

theorem callers_one_after_another_witness:
  "\<not> initialized (fresh_object :: (string, string, string) rag_service) \<and>
   initialize demo_caps fresh_object demo_new_world [] =
     (Inr (success_result 1), demo_ready, demo_indexed_world, success_log demo_caps) \<and>
   run demo_caps (one_after_another 0 (Suc 4))
     \<lparr>shared = fresh_object, world = demo_new_world, logged = [],
      callers = replicate (Suc 4) AtEntry\<rparr> =
     \<lparr>shared = demo_ready, world = demo_indexed_world, logged = success_log demo_caps,
      callers = Returned (Inr (success_result 1)) #
                replicate 4 (Returned (Inr already_initialized))\<rparr>"
  using callers_one_after_another[OF fresh_object_not_initialized demo_initialize, of 4]
    fresh_object_not_initialized demo_initialize
  by blast

text \<open>
  C9, as the claim states it, fails. Two callers on a fresh service, stepping in turn:
  after the test of the flag both are inside the \<^verbatim>\<open>try\<close> block; both find the index
  directory missing; both build the index from the chunks (the directory ends up holding
  every chunk twice); both return the result of a full initialization, none of them
  ``already initialized'', and the log holds two ``initialized successfully'' entries.
\<close>

theorem racing_callers_counterexample:
  "callers (run demo_caps [0, 1] racing_system) = [InTry, InTry] \<and>
   run demo_caps [0, 1, 0, 1, 0, 1] racing_system =
     \<lparr>shared = demo_ready,
      world = \<lparr>speech = Some demo_speech, chroma_db = Some [demo_chunk, demo_chunk],
               searches = 0\<rparr>,
      logged = head_log demo_caps @ head_log demo_caps @ tail_log @ tail_log,
      callers = [Returned (Inr (success_result 1)), Returned (Inr (success_result 1))]\<rparr> \<and>
   count_list (head_log demo_caps @ head_log demo_caps @ tail_log @ tail_log)
     (Info ''RAG service initialized successfully'') = 2"
proof -
  from racing_tests have a: "callers (run demo_caps [0, 1] racing_system) = [InTry, InTry]"
    by simp
  have c: "count_list (head_log demo_caps @ head_log demo_caps @ tail_log @ tail_log)
     (Info ''RAG service initialized successfully'') = 2"
    by (simp add: head_log_def tail_log_def)
  from a racing_run_all c show ?thesis by (intro conjI)
qed

end
